theory Spec2Isabelle
  imports Main "HOL-Library.AList"
begin

section \<open>Python strings\<close>

text \<open>
  A Python \<open>str\<close> is a sequence of Unicode code points, so it is modelled as a list of
  natural numbers. \<open>ascii\<close> turns an ASCII literal into such a list; the other code
  points of the source's literals (the emoji and the ellipsis) are written as numbers.
\<close>

type_synonym pystr = "nat list"

definition ascii :: "string \<Rightarrow> pystr" where
  "ascii s = map of_char s"

text \<open>\<open>str.startswith\<close> and \<open>str.endswith\<close> with one candidate.\<close>

definition startswith :: "pystr \<Rightarrow> pystr \<Rightarrow> bool" where
  "startswith s p = (take (length p) s = p)"

definition endswith :: "pystr \<Rightarrow> pystr \<Rightarrow> bool" where
  "endswith s p = (length p \<le> length s \<and> drop (length s - length p) s = p)"

text \<open>
  \<open>str.strip()\<close> without argument removes leading and trailing whitespace, where
  whitespace is what CPython's \<open>Py_UNICODE_ISSPACE\<close> accepts.
\<close>

definition isspace :: "nat \<Rightarrow> bool" where
  "isspace c = (c \<in> set [0x09, 0x0A, 0x0B, 0x0C, 0x0D, 0x1C, 0x1D, 0x1E, 0x1F, 0x20,
                          0x85, 0xA0, 0x1680, 0x2028, 0x2029, 0x202F, 0x205F, 0x3000]
               \<or> (0x2000 \<le> c \<and> c \<le> 0x200A))"

definition strip :: "pystr \<Rightarrow> pystr" where
  "strip s = rev (dropWhile isspace (rev (dropWhile isspace s)))"

text \<open>
  \<open>str.lower()\<close>: an ASCII code point is lowered by the ASCII rule. The lowering of a
  code point outside ASCII comes from the Unicode tables (and, for the capital sigma, from
  its context), which are not part of the program: it is the parameter \<open>ulower\<close>, given
  the code points before it, the code point and the code points after it.
\<close>

definition ascii_lower :: "nat \<Rightarrow> nat" where
  "ascii_lower c = (if 65 \<le> c \<and> c \<le> 90 then c + 32 else c)"

fun lower_chars :: "(pystr \<Rightarrow> nat \<Rightarrow> pystr \<Rightarrow> pystr) \<Rightarrow> pystr \<Rightarrow> pystr \<Rightarrow> pystr" where
  "lower_chars ulower before [] = []"
| "lower_chars ulower before (c # rest) =
     (if c < 128 then [ascii_lower c] else ulower before c rest)
     @ lower_chars ulower (before @ [c]) rest"

definition lower :: "(pystr \<Rightarrow> nat \<Rightarrow> pystr \<Rightarrow> pystr) \<Rightarrow> pystr \<Rightarrow> pystr" where
  "lower ulower s = lower_chars ulower [] s"

text \<open>
  \<open>str(n)\<close> for a non-negative integer, as the f-string \<open>{sec}\<close> renders it.
\<close>

function str_nat :: "nat \<Rightarrow> pystr" where
  "str_nat n = (if n < 10 then [48 + n] else str_nat (n div 10) @ [48 + n mod 10])"
  by pat_completeness auto
termination
  by (relation "measure id") auto

declare str_nat.simps [simp del]

section \<open>Paths\<close>

text \<open>
  \<open>os.path.join(a, b)\<close> and \<open>os.path.splitext(p)\<close> of \<open>posixpath\<close>: the separator
  is \<open>/\<close> (47), the extension separator is \<open>.\<close> (46). \<open>rfind\<close> is \<open>str.rfind\<close> for
  one character, \<open>-1\<close> when it does not occur.
\<close>

definition os_path_join :: "pystr \<Rightarrow> pystr \<Rightarrow> pystr" where
  "os_path_join a b =
     (if startswith b [47] then b
      else if a = [] \<or> endswith a [47] then a @ b
      else a @ [47] @ b)"

definition rfind :: "pystr \<Rightarrow> nat \<Rightarrow> int" where
  "rfind p c = (case filter (\<lambda>i. p ! i = c) (rev [0..<length p]) of
                  [] \<Rightarrow> - 1
                | i # _ \<Rightarrow> int i)"

function splitext_loop :: "pystr \<Rightarrow> nat \<Rightarrow> nat \<Rightarrow> pystr \<times> pystr" where
  "splitext_loop p filenameIndex dotIndex =
     (if filenameIndex < dotIndex then
        (if p ! filenameIndex \<noteq> 46 then (take dotIndex p, drop dotIndex p)
         else splitext_loop p (filenameIndex + 1) dotIndex)
      else (p, []))"
  by pat_completeness auto
termination
  by (relation "measure (\<lambda>(p, filenameIndex, dotIndex). dotIndex - filenameIndex)") auto

declare splitext_loop.simps [simp del]

definition splitext :: "pystr \<Rightarrow> pystr \<times> pystr" where
  "splitext p =
     (let sepIndex = rfind p 47; dotIndex = rfind p 46
      in if dotIndex > sepIndex then splitext_loop p (nat (sepIndex + 1)) (nat dotIndex)
         else (p, []))"

text \<open>A path lies under a directory when it is the directory or below it.\<close>

definition under :: "pystr \<Rightarrow> pystr \<Rightarrow> bool" where
  "under d p = (p = d \<or> startswith p (d @ [47]))"

section \<open>The download configuration\<close>

text \<open>
  The dictionary \<open>ydl_opts\<close> of \<open>download_media\<close> has a fixed set of keys, so it is a
  record; the one optional key, \<open>postprocessors\<close>, is an option.
\<close>

record postprocessor =
  key :: pystr
  preferredcodec :: pystr
  preferredquality :: pystr

record ydl_options =
  format :: pystr
  outtmpl :: pystr
  noplaylist :: bool
  continuedl :: bool
  retries :: nat
  fragment_retries :: nat
  socket_timeout :: nat
  http_chunk_size :: nat
  external_downloader :: pystr
  external_downloader_args :: "pystr list"
  quiet :: bool
  postprocessors :: "postprocessor list option"

definition ydl_opts :: "pystr \<Rightarrow> pystr \<Rightarrow> ydl_options" where
  "ydl_opts download_dir fmt =
     (let opts = \<lparr>
            format = (if fmt = ascii ''audio'' then ascii ''bestaudio/best''
                      else ascii ''bestvideo+bestaudio/best''),
            outtmpl = os_path_join download_dir (ascii ''%(title)s.%(ext)s''),
            noplaylist = True,
            continuedl = True,
            retries = 10,
            fragment_retries = 10,
            socket_timeout = 10,
            http_chunk_size = 10485760,
            external_downloader = ascii ''aria2c'',
            external_downloader_args = [ascii ''-x'', ascii ''16'', ascii ''-k'', ascii ''1M''],
            quiet = True,
            postprocessors = None \<rparr>
      in if fmt = ascii ''audio''
         then opts\<lparr>postprocessors := Some [\<lparr> key = ascii ''FFmpegExtractAudio'',
                                               preferredcodec = ascii ''mp3'',
                                               preferredquality = ascii ''192'' \<rparr>]\<rparr>
         else opts)"

section \<open>The world the handlers act on\<close>

text \<open>
  An exception is either an instance of \<open>Exception\<close>, which \<open>except Exception\<close>
  catches, or a \<open>BaseException\<close> outside \<open>Exception\<close> (a cancellation, a keyboard
  interrupt), which it does not. Both carry the text \<open>str(e)\<close>.
\<close>

datatype exn = Exception pystr | BaseOnly pystr

text \<open>The information dictionary that \<open>extract_info\<close> returns.\<close>

type_synonym info = "(pystr \<times> pystr) list"

text \<open>
  Every call that leaves the program is an effect, recorded in the order of the calls:
  the calls on the messaging library, on the file system, on the logger and on the
  download library.
\<close>

datatype effect =
    Answer
  | EditMessageText pystr
  | EditText pystr
  | ReplyText pystr
  | ReplyMarkup pystr "(pystr \<times> pystr) list list"
  | ReplyVideo pystr
  | ReplyAudio pystr
  | Sleep nat
  | Mkdtemp
  | Rmtree pystr
  | OpenFile pystr
  | CloseFile pystr
  | LogException pystr exn
  | YoutubeDL ydl_options
  | ExtractInfo pystr
  | PrepareFilename info
  | YoutubeDLExit

text \<open>
  What the outside does is a parameter: whether a call raises, given the calls made so
  far; the name \<open>mkdtemp\<close> picks; the paths under a tree that \<open>rmtree\<close> fails to
  remove; the files the download library leaves on disk, the dictionary and the file
  name it answers; and the lowering of the code points outside ASCII.
\<close>

record env =
  raises :: "effect list \<Rightarrow> effect \<Rightarrow> exn option"
  mkdtemp_name :: "effect list \<Rightarrow> pystr"
  rmtree_left :: "effect list \<Rightarrow> pystr list"
  extract_info_files :: "effect list \<Rightarrow> pystr list"
  extract_info_value :: "effect list \<Rightarrow> info"
  prepare_filename_value :: "effect list \<Rightarrow> pystr"
  ulower :: "pystr \<Rightarrow> nat \<Rightarrow> pystr \<Rightarrow> pystr"

text \<open>
  The state: the conversation state the \<open>ConversationHandler\<close> keeps for the user
  (\<open>None\<close> when no conversation is active), the dictionary \<open>context.user_data\<close>, the
  paths that exist on disk, and the calls made so far.
\<close>

datatype conv_state = ASK_LINK | ASK_FORMAT

datatype handler_result = Next conv_state | END

record world =
  conv :: "conv_state option"
  user_data :: "(pystr \<times> pystr) list"
  fs :: "pystr list"
  trace :: "effect list"

type_synonym 'a io = "world \<Rightarrow> (exn + 'a) \<times> world"

definition return_io :: "'a \<Rightarrow> 'a io" where
  "return_io a w = (Inr a, w)"

definition bind_io :: "'a io \<Rightarrow> ('a \<Rightarrow> 'b io) \<Rightarrow> 'b io" where
  "bind_io m f w = (case m w of (Inl x, w') \<Rightarrow> (Inl x, w') | (Inr a, w') \<Rightarrow> f a w')"

text \<open>A call is recorded, then it returns or raises as the outside decides.\<close>

definition call :: "env \<Rightarrow> effect \<Rightarrow> unit io" where
  "call E e w =
     (case raises E (trace w) e of
        Some x \<Rightarrow> (Inl x, w\<lparr>trace := trace w @ [e]\<rparr>)
      | None \<Rightarrow> (Inr (), w\<lparr>trace := trace w @ [e]\<rparr>))"

text \<open>
  \<open>with ... as x: body\<close>: the exit method runs however the body ends; it returns
  nothing, so an exception of the body goes on, unless the exit itself raises.
\<close>

definition with_exit :: "unit io \<Rightarrow> 'a io \<Rightarrow> 'a io" where
  "with_exit exit body w =
     (case body w of (r, w') \<Rightarrow>
        (case exit w' of (Inl x, w'') \<Rightarrow> (Inl x, w'') | (Inr _, w'') \<Rightarrow> (r, w'')))"

text \<open>\<open>try: body except Exception as e: handler\<close>.\<close>

definition try_except :: "'a io \<Rightarrow> (exn \<Rightarrow> 'a io) \<Rightarrow> 'a io" where
  "try_except body handler w =
     (case body w of
        (Inl (Exception c), w') \<Rightarrow> handler (Exception c) w'
      | (Inl (BaseOnly c), w') \<Rightarrow> (Inl (BaseOnly c), w')
      | (Inr a, w') \<Rightarrow> (Inr a, w'))"

text \<open>\<open>try: body finally: cleanup\<close>, for a cleanup that cannot raise.\<close>

definition try_finally :: "'a io \<Rightarrow> (world \<Rightarrow> world) \<Rightarrow> 'a io" where
  "try_finally body cleanup w = (case body w of (r, w') \<Rightarrow> (r, cleanup w'))"

section \<open>download_media\<close>

text \<open>
  \<open>extract_info(url, download=True)\<close> downloads: whatever it leaves on disk is there
  whether it returns or raises.
\<close>

definition extract_info :: "env \<Rightarrow> pystr \<Rightarrow> info io" where
  "extract_info E url w =
     (let t = trace w @ [ExtractInfo url];
          w' = w\<lparr>fs := fs w @ extract_info_files E t, trace := t\<rparr>
      in case raises E (trace w) (ExtractInfo url) of
           Some x \<Rightarrow> (Inl x, w')
         | None \<Rightarrow> (Inr (extract_info_value E t), w'))"

definition prepare_filename :: "env \<Rightarrow> info \<Rightarrow> pystr io" where
  "prepare_filename E i =
     bind_io (call E (PrepareFilename i)) (\<lambda>_ w. (Inr (prepare_filename_value E (trace w)), w))"

definition download_media :: "env \<Rightarrow> pystr \<Rightarrow> pystr \<Rightarrow> pystr \<Rightarrow> pystr io" where
  "download_media E url download_dir fmt =
     bind_io (call E (YoutubeDL (ydl_opts download_dir fmt))) (\<lambda>_.
       with_exit (call E YoutubeDLExit)
         (bind_io (extract_info E url) (\<lambda>i.
          bind_io (prepare_filename E i) (\<lambda>filename.
          return_io (if fmt = ascii ''audio''
                     then fst (splitext filename) @ ascii ''.mp3''
                     else filename)))))"

section \<open>The handlers\<close>

text \<open>The texts the handlers send, with their emoji as code points.\<close>

definition greeting :: pystr where
  "greeting = [0x1F44B] @ ascii '' Hi! Send me the link of the video you want to download.''"

definition invalid_url_text :: pystr where
  "invalid_url_text =
     [0x2757, 0xFE0F] @ ascii '' Please send a valid URL (must start with http:// or https://).''"

definition format_question :: pystr where
  "format_question = ascii ''Great! Do you want audio or video?''"

definition keyboard :: "(pystr \<times> pystr) list list" where
  "keyboard = [[(ascii ''Audio '' @ [0x1F3B5], ascii ''audio''),
                (ascii ''Video '' @ [0x1F3A5], ascii ''video'')]]"

definition missing_url_text :: pystr where
  "missing_url_text =
     [0x274C] @ ascii '' Something went wrong (missing URL). Please /start again.''"

definition downloading_text :: "pystr \<Rightarrow> pystr" where
  "downloading_text choice = [0x1F504] @ ascii '' Downloading your '' @ choice @ [0x2026]"

definition sending_text :: "pystr \<Rightarrow> nat \<Rightarrow> pystr" where
  "sending_text choice sec =
     [0x1F680] @ ascii '' Sending your '' @ choice @ ascii '' in '' @ str_nat sec
     @ ascii '' second'' @ (if sec > 1 then ascii ''s'' else []) @ [0x2026]"

definition done_text :: pystr where
  "done_text = [0x2705] @ ascii '' Done! Send me another link (or /cancel to stop).''"

definition error_text :: "exn \<Rightarrow> pystr" where
  "error_text e =
     [0x274C] @ ascii '' Error during download: '' @ (case e of Exception c \<Rightarrow> c | BaseOnly c \<Rightarrow> c)"

definition cancelled_text :: pystr where
  "cancelled_text = [0x1F44B] @ ascii '' Operation cancelled. Use /start to download again.''"

definition help_text :: pystr where
  "help_text = ascii ''/start '' @ [0x2013] @ ascii '' begin download'' @ [10]
               @ ascii ''/cancel '' @ [0x2013] @ ascii '' stop''"

definition start :: "env \<Rightarrow> handler_result io" where
  "start E = bind_io (call E (ReplyText greeting)) (\<lambda>_. return_io (Next ASK_LINK))"

text \<open>\<open>url.lower().startswith(("http://", "https://"))\<close>.\<close>

definition has_scheme :: "env \<Rightarrow> pystr \<Rightarrow> bool" where
  "has_scheme E url =
     list_ex (startswith (lower (ulower E) url)) [ascii ''http://'', ascii ''https://'']"

definition set_url :: "pystr \<Rightarrow> unit io" where
  "set_url url w = (Inr (), w\<lparr>user_data := AList.update (ascii ''url'') url (user_data w)\<rparr>)"

definition get_url :: "pystr option io" where
  "get_url w = (Inr (map_of (user_data w) (ascii ''url'')), w)"

definition ask_format :: "env \<Rightarrow> pystr \<Rightarrow> handler_result io" where
  "ask_format E text =
     (let url = strip text
      in if \<not> has_scheme E url
         then bind_io (call E (ReplyText invalid_url_text)) (\<lambda>_. return_io (Next ASK_LINK))
         else bind_io (set_url url) (\<lambda>_.
              bind_io (call E (ReplyMarkup format_question keyboard)) (\<lambda>_.
              return_io (Next ASK_FORMAT))))"

text \<open>
  \<open>tempfile.mkdtemp()\<close> creates the directory it names; \<open>shutil.rmtree(d,
  ignore_errors=True)\<close> removes every path under \<open>d\<close> but those it fails on, and never
  raises; \<open>logger.exception\<close> records the message with the exception being handled.
\<close>

definition mkdtemp :: "env \<Rightarrow> pystr io" where
  "mkdtemp E =
     bind_io (call E Mkdtemp) (\<lambda>_ w.
       (Inr (mkdtemp_name E (trace w)), w\<lparr>fs := fs w @ [mkdtemp_name E (trace w)]\<rparr>))"

definition rmtree :: "env \<Rightarrow> pystr \<Rightarrow> world \<Rightarrow> world" where
  "rmtree E d w =
     (let t = trace w @ [Rmtree d]
      in w\<lparr>fs := filter (\<lambda>p. if under d p then p \<in> set (rmtree_left E t) else True) (fs w),
            trace := t\<rparr>)"

definition logger_exception :: "pystr \<Rightarrow> exn \<Rightarrow> unit io" where
  "logger_exception msg e w = (Inr (), w\<lparr>trace := trace w @ [LogException msg e]\<rparr>)"

text \<open>\<open>range(first, stop, -1)\<close> and the \<open>for\<close> loop over a list.\<close>

definition range_down :: "nat \<Rightarrow> nat \<Rightarrow> nat list" where
  "range_down first stop = rev [stop + 1 ..< first + 1]"

fun for_each :: "'a list \<Rightarrow> ('a \<Rightarrow> unit io) \<Rightarrow> unit io" where
  "for_each [] body = return_io ()"
| "for_each (x # xs) body = bind_io (body x) (\<lambda>_. for_each xs body)"

definition countdown :: "env \<Rightarrow> pystr \<Rightarrow> unit io" where
  "countdown E choice =
     for_each (range_down 5 0) (\<lambda>sec.
       bind_io (call E (EditText (sending_text choice sec))) (\<lambda>_. call E (Sleep 1)))"

definition send_media :: "env \<Rightarrow> pystr \<Rightarrow> pystr \<Rightarrow> unit io" where
  "send_media E choice file_path =
     bind_io (call E (OpenFile file_path)) (\<lambda>_.
       with_exit (call E (CloseFile file_path))
         (if choice = ascii ''video'' then call E (ReplyVideo file_path)
          else call E (ReplyAudio file_path)))"

text \<open>
  The body of the \<open>try\<close> statement of \<open>handle_format_choice\<close>, and its
  \<open>except\<close> clause.
\<close>

definition deliver :: "env \<Rightarrow> pystr \<Rightarrow> pystr \<Rightarrow> pystr \<Rightarrow> handler_result io" where
  "deliver E url temp_dir choice =
     bind_io (download_media E url temp_dir choice) (\<lambda>file_path.
     bind_io (countdown E choice) (\<lambda>_.
     bind_io (send_media E choice file_path) (\<lambda>_.
     bind_io (call E (ReplyText done_text)) (\<lambda>_.
     return_io (Next ASK_LINK)))))"

definition report :: "env \<Rightarrow> exn \<Rightarrow> handler_result io" where
  "report E e =
     bind_io (logger_exception (ascii ''Download error'') e) (\<lambda>_.
     bind_io (call E (ReplyText (error_text e))) (\<lambda>_.
     return_io (Next ASK_LINK)))"

text \<open>The whole \<open>try ... except ... finally\<close> statement, then the handler.\<close>

definition delivery :: "env \<Rightarrow> pystr \<Rightarrow> pystr \<Rightarrow> pystr \<Rightarrow> handler_result io" where
  "delivery E url temp_dir choice =
     try_finally (try_except (deliver E url temp_dir choice) (report E)) (rmtree E temp_dir)"

definition handle_format_choice :: "env \<Rightarrow> pystr \<Rightarrow> handler_result io" where
  "handle_format_choice E choice =
     bind_io (call E Answer) (\<lambda>_.
     bind_io get_url (\<lambda>url.
       case url of
         None \<Rightarrow> bind_io (call E (EditMessageText missing_url_text)) (\<lambda>_. return_io END)
       | Some u \<Rightarrow>
           if u = []
           then bind_io (call E (EditMessageText missing_url_text)) (\<lambda>_. return_io END)
           else bind_io (call E (EditMessageText (downloading_text choice))) (\<lambda>_.
                bind_io (mkdtemp E) (\<lambda>temp_dir. delivery E u temp_dir choice))))"

definition cancel :: "env \<Rightarrow> handler_result io" where
  "cancel E = bind_io (call E (ReplyText cancelled_text)) (\<lambda>_. return_io END)"

section \<open>The conversation\<close>

text \<open>
  An update is a message that starts with a bot command, a text message that does not,
  a press on an inline button with its callback data, or another message (a photo, a
  sticker).
\<close>

datatype update = Command pystr | Text pystr | CallbackQuery pystr | OtherMessage

datatype handler = Start | AskFormat pystr | HandleFormatChoice pystr | Cancel

text \<open>
  The table of \<open>main\<close>, read as the \<open>ConversationHandler\<close> reads it: with
  \<open>allow_reentry\<close> the entry points are tried first in every state; without an active
  conversation nothing else is tried; otherwise the handlers of the state, then the
  fallbacks in their order. \<open>filters.ALL\<close> accepts every message and no button press.
\<close>

definition fallbacks :: "update \<Rightarrow> handler option" where
  "fallbacks u =
     (if u = Command (ascii ''cancel'') then Some Cancel
      else case u of CallbackQuery _ \<Rightarrow> None | _ \<Rightarrow> Some Start)"

definition check_update :: "conv_state option \<Rightarrow> update \<Rightarrow> handler option" where
  "check_update st u =
     (if u = Command (ascii ''start'') then Some Start
      else case st of
             None \<Rightarrow> None
           | Some ASK_LINK \<Rightarrow> (case u of Text t \<Rightarrow> Some (AskFormat t) | _ \<Rightarrow> fallbacks u)
           | Some ASK_FORMAT \<Rightarrow>
               (case u of CallbackQuery d \<Rightarrow> Some (HandleFormatChoice d) | _ \<Rightarrow> fallbacks u))"

fun run_handler :: "env \<Rightarrow> handler \<Rightarrow> handler_result io" where
  "run_handler E Start = start E"
| "run_handler E (AskFormat t) = ask_format E t"
| "run_handler E (HandleFormatChoice d) = handle_format_choice E d"
| "run_handler E Cancel = cancel E"

text \<open>
  The conversation moves to the state the handler returns, and ends on \<open>END\<close>; when
  the handler raises, the state stays as it was. An update the conversation does not
  take goes to the \<open>help\<close> handler.
\<close>

definition process_update :: "env \<Rightarrow> update \<Rightarrow> world \<Rightarrow> world" where
  "process_update E u w =
     (case check_update (conv w) u of
        Some h \<Rightarrow>
          (case run_handler E h w of
             (Inl x, w') \<Rightarrow> w'
           | (Inr END, w') \<Rightarrow> w'\<lparr>conv := None\<rparr>
           | (Inr (Next st), w') \<Rightarrow> w'\<lparr>conv := Some st\<rparr>)
      | None \<Rightarrow>
          (if u = Command (ascii ''help'') then snd (call E (ReplyText help_text) w) else w))"

section \<open>Notions used to state the properties\<close>

text \<open>
  An action \<open>acts\<close> within a class of effects when, from every state, it only appends
  effects of that class to the record of calls and leaves the user's dictionary and the
  conversation state alone.
\<close>

definition acts :: "(effect \<Rightarrow> bool) \<Rightarrow> 'a io \<Rightarrow> bool" where
  "acts P m = (\<forall>w. \<exists>es. trace (snd (m w)) = trace w @ es \<and> list_all P es
                     \<and> user_data (snd (m w)) = user_data w \<and> conv (snd (m w)) = conv w)"

definition raise_io :: "exn \<Rightarrow> 'a io" where
  "raise_io x w = (Inl x, w)"

fun is_download_effect :: "effect \<Rightarrow> bool" where
  "is_download_effect (YoutubeDL _) = True"
| "is_download_effect (ExtractInfo _) = True"
| "is_download_effect (PrepareFilename _) = True"
| "is_download_effect YoutubeDLExit = True"
| "is_download_effect _ = False"

text \<open>A tick of the countdown is an edit of the status message or a pause.\<close>

fun is_tick :: "effect \<Rightarrow> bool" where
  "is_tick (EditText _) = True"
| "is_tick (Sleep _) = True"
| "is_tick _ = False"

text \<open>
  The handler has entered its \<open>try\<close> statement when the stored URL is there and not
  empty and the three calls before the statement returned: the answer to the button
  press, the first edit of the message and \<open>mkdtemp\<close>. \<open>entered\<close> gives the URL, the
  directory and the state at that point.
\<close>

definition entered :: "env \<Rightarrow> pystr \<Rightarrow> world \<Rightarrow> (pystr \<times> pystr \<times> world) option" where
  "entered E choice w =
     (let t1 = trace w @ [Answer];
          t2 = t1 @ [EditMessageText (downloading_text choice)];
          t3 = t2 @ [Mkdtemp]
      in case map_of (user_data w) (ascii ''url'') of
           None \<Rightarrow> None
         | Some u \<Rightarrow>
             if u \<noteq> [] \<and> raises E (trace w) Answer = None
                \<and> raises E t1 (EditMessageText (downloading_text choice)) = None
                \<and> raises E t2 Mkdtemp = None
             then Some (u, mkdtemp_name E t3, w\<lparr>trace := t3, fs := fs w @ [mkdtemp_name E t3]\<rparr>)
             else None)"

text \<open>
  What follows the call that opens the file, given the exception that call raised, if
  any: the rest of the \<open>with\<close> statement and the final prompt.
\<close>

definition after_open :: "env \<Rightarrow> pystr \<Rightarrow> pystr \<Rightarrow> exn option \<Rightarrow> handler_result io" where
  "after_open E choice p failure =
     bind_io
       (case failure of
          Some x \<Rightarrow> raise_io x
        | None \<Rightarrow>
            with_exit (call E (CloseFile p))
              (if choice = ascii ''video'' then call E (ReplyVideo p) else call E (ReplyAudio p)))
       (\<lambda>_. bind_io (call E (ReplyText done_text)) (\<lambda>_. return_io (Next ASK_LINK)))"

subsection \<open>Example environments and states\<close>

text \<open>
  An outside where nothing fails and the download leaves one file, the one whose name
  the library answers.
\<close>

definition calm :: env where
  "calm = \<lparr> raises = (\<lambda>t e. None),
            mkdtemp_name = (\<lambda>t. ascii ''/tmp/tmpk3v9''),
            rmtree_left = (\<lambda>t. []),
            extract_info_files = (\<lambda>t. [ascii ''/tmp/tmpk3v9/clip.webm'']),
            extract_info_value =
              (\<lambda>t. [(ascii ''title'', ascii ''clip''), (ascii ''ext'', ascii ''webm'')]),
            prepare_filename_value = (\<lambda>t. ascii ''/tmp/tmpk3v9/clip.webm''),
            ulower = (\<lambda>before c rest. [c]) \<rparr>"

text \<open>The same outside, but one call raises.\<close>

definition failing :: "effect \<Rightarrow> exn \<Rightarrow> env" where
  "failing e x = calm\<lparr>raises := (\<lambda>t e'. if e' = e then Some x else None)\<rparr>"

text \<open>The same outside, but the download merges into another container.\<close>

definition merging :: env where
  "merging = calm\<lparr>extract_info_files := (\<lambda>t. [ascii ''/tmp/tmpk3v9/clip.mkv''])\<rparr>"

text \<open>
  The same outside, but \<open>rmtree\<close> cannot remove the downloaded file, nor then the
  directory.
\<close>

definition sticky :: env where
  "sticky = calm\<lparr>rmtree_left :=
              (\<lambda>t. [ascii ''/tmp/tmpk3v9'', ascii ''/tmp/tmpk3v9/clip.webm''])\<rparr>"

text \<open>
  A user who was asked for the format of a stored URL, one who is asked for a link, and
  one who is asked for the format with nothing stored.
\<close>

definition example_url :: pystr where
  "example_url = ascii ''https://example.com/v''"

definition asked :: world where
  "asked = \<lparr> conv = Some ASK_FORMAT, user_data = [(ascii ''url'', example_url)],
             fs = [], trace = [] \<rparr>"

definition waiting :: world where
  "waiting = \<lparr> conv = Some ASK_LINK, user_data = [], fs = [], trace = [] \<rparr>"

definition forgotten :: world where
  "forgotten = \<lparr> conv = Some ASK_FORMAT, user_data = [], fs = [], trace = [] \<rparr>"

text \<open>A media attachment is a video or an audio reply.\<close>

fun is_media :: "effect \<Rightarrow> bool" where
  "is_media (ReplyVideo _) = True"
| "is_media (ReplyAudio _) = True"
| "is_media _ = False"

section \<open>Basic facts\<close>

lemma ascii_eq_iff [simp]: "(ascii s = ascii t) = (s = t)"
  by (simp add: ascii_def inj_map_eq_map inj_on_def)

lemma ascii_Nil_iff [simp]: "(ascii s = []) = (s = [])"
  by (simp add: ascii_def)

lemma range_down_5: "range_down 5 0 = [5, 4, 3, 2, 1]"
  by code_simp

lemmas io_defs = return_io_def bind_io_def call_def with_exit_def try_except_def
  try_finally_def raise_io_def

lemmas handler_defs = handle_format_choice_def delivery_def deliver_def report_def
  send_media_def countdown_def mkdtemp_def rmtree_def logger_exception_def get_url_def
  download_media_def extract_info_def prepare_filename_def range_down_5

lemmas example_defs = calm_def failing_def merging_def sticky_def asked_def waiting_def
  forgotten_def example_url_def

lemma bind_io_Inr: "m w = (Inr a, w') \<Longrightarrow> bind_io m f w = f a w'"
  by (simp add: bind_io_def)

lemma bind_io_Inl: "m w = (Inl x, w') \<Longrightarrow> bind_io m f w = (Inl x, w')"
  by (simp add: bind_io_def)

lemma bind_io_shift: "m w = m' w' \<Longrightarrow> bind_io m f w = bind_io m' f w'"
  by (simp add: bind_io_def)

lemma try_except_shift: "body w = body' w' \<Longrightarrow> try_except body h w = try_except body' h w'"
  by (simp add: try_except_def)

lemma try_finally_shift: "body w = body' w' \<Longrightarrow> try_finally body c w = try_finally body' c w'"
  by (simp add: try_finally_def)

subsection \<open>What an action appends\<close>

lemma actsD:
  assumes "acts P m" "m w = (r, w')"
  shows "\<exists>es. trace w' = trace w @ es \<and> list_all P es
           \<and> user_data w' = user_data w \<and> conv w' = conv w"
  using assms unfolding acts_def by (metis snd_conv)

lemma acts_return: "acts P (return_io a)"
  by (simp add: acts_def return_io_def)

lemma acts_raise: "acts P (raise_io x)"
  by (simp add: acts_def raise_io_def)

lemma acts_call: "P e \<Longrightarrow> acts P (call E e)"
  by (simp add: acts_def call_def split: option.splits)

lemma acts_bind:
  assumes "acts P m" "\<And>a. acts P (f a)"
  shows "acts P (bind_io m f)"
proof (unfold acts_def, intro allI)
  fix w
  obtain r w1 where m: "m w = (r, w1)" by (cases "m w")
  from actsD[OF assms(1) m] obtain es where
    es: "trace w1 = trace w @ es" "list_all P es" "user_data w1 = user_data w" "conv w1 = conv w"
    by blast
  show "\<exists>es. trace (snd (bind_io m f w)) = trace w @ es \<and> list_all P es
          \<and> user_data (snd (bind_io m f w)) = user_data w \<and> conv (snd (bind_io m f w)) = conv w"
  proof (cases r)
    case (Inl x)
    with m es show ?thesis by (simp add: bind_io_def)
  next
    case (Inr a)
    obtain r2 w2 where f: "f a w1 = (r2, w2)" by (cases "f a w1")
    from actsD[OF assms(2) f] obtain es2 where
      "trace w2 = trace w1 @ es2" "list_all P es2" "user_data w2 = user_data w1" "conv w2 = conv w1"
      by blast
    with m es Inr f show ?thesis by (simp add: bind_io_def)
  qed
qed

lemma acts_with_exit:
  assumes "acts P exit" "acts P body"
  shows "acts P (with_exit exit body)"
proof (unfold acts_def, intro allI)
  fix w
  obtain r w1 where b: "body w = (r, w1)" by (cases "body w")
  obtain r2 w2 where e: "exit w1 = (r2, w2)" by (cases "exit w1")
  from actsD[OF assms(2) b] obtain es where
    es: "trace w1 = trace w @ es" "list_all P es" "user_data w1 = user_data w" "conv w1 = conv w"
    by blast
  from actsD[OF assms(1) e] obtain es2 where
    es2: "trace w2 = trace w1 @ es2" "list_all P es2" "user_data w2 = user_data w1"
      "conv w2 = conv w1"
    by blast
  have "snd (with_exit exit body w) = w2"
    using b e by (simp add: with_exit_def split: sum.splits)
  with es es2 show "\<exists>es. trace (snd (with_exit exit body w)) = trace w @ es \<and> list_all P es
          \<and> user_data (snd (with_exit exit body w)) = user_data w
          \<and> conv (snd (with_exit exit body w)) = conv w"
    by simp
qed

lemma acts_for_each:
  assumes "\<And>x. acts P (body x)"
  shows "acts P (for_each xs body)"
  by (induction xs) (simp_all add: acts_return acts_bind assms)

lemma acts_try_except:
  assumes "acts P body" "\<And>e. acts P (handler e)"
  shows "acts P (try_except body handler)"
proof (unfold acts_def, intro allI)
  fix w
  obtain r w1 where b: "body w = (r, w1)" by (cases "body w")
  from actsD[OF assms(1) b] obtain es where
    es: "trace w1 = trace w @ es" "list_all P es" "user_data w1 = user_data w" "conv w1 = conv w"
    by blast
  show "\<exists>es. trace (snd (try_except body handler w)) = trace w @ es \<and> list_all P es
          \<and> user_data (snd (try_except body handler w)) = user_data w
          \<and> conv (snd (try_except body handler w)) = conv w"
  proof (cases "\<exists>c. r = Inl (Exception c)")
    case True
    then obtain c where r: "r = Inl (Exception c)" by blast
    obtain r2 w2 where h: "handler (Exception c) w1 = (r2, w2)"
      by (cases "handler (Exception c) w1")
    from actsD[OF assms(2) h] obtain es2 where
      "trace w2 = trace w1 @ es2" "list_all P es2" "user_data w2 = user_data w1" "conv w2 = conv w1"
      by blast
    with b r h es show ?thesis by (simp add: try_except_def)
  next
    case False
    then have "try_except body handler w = (r, w1)"
      using b by (auto simp add: try_except_def split: sum.splits exn.splits)
    with es show ?thesis by simp
  qed
qed

lemma acts_try_finally_rmtree:
  assumes "acts P body" "P (Rmtree d)"
  shows "acts P (try_finally body (rmtree E d))"
proof (unfold acts_def, intro allI)
  fix w
  obtain r w1 where b: "body w = (r, w1)" by (cases "body w")
  from actsD[OF assms(1) b] obtain es where
    es: "trace w1 = trace w @ es" "list_all P es" "user_data w1 = user_data w" "conv w1 = conv w"
    by blast
  have "snd (try_finally body (rmtree E d) w) = rmtree E d w1"
    using b by (simp add: try_finally_def)
  with es assms(2) show "\<exists>es. trace (snd (try_finally body (rmtree E d) w)) = trace w @ es
          \<and> list_all P es
          \<and> user_data (snd (try_finally body (rmtree E d) w)) = user_data w
          \<and> conv (snd (try_finally body (rmtree E d) w)) = conv w"
    by (simp add: rmtree_def Let_def)
qed

lemma acts_extract_info: "P (ExtractInfo url) \<Longrightarrow> acts P (extract_info E url)"
  by (simp add: acts_def extract_info_def Let_def split: option.splits)

lemma acts_prepare_filename: "P (PrepareFilename i) \<Longrightarrow> acts P (prepare_filename E i)"
  by (simp add: acts_def prepare_filename_def call_def bind_io_def split: option.splits)

lemma acts_logger_exception: "P (LogException msg e) \<Longrightarrow> acts P (logger_exception msg e)"
  by (simp add: acts_def logger_exception_def)

lemma acts_mkdtemp: "P Mkdtemp \<Longrightarrow> acts P (mkdtemp E)"
  by (simp add: acts_def mkdtemp_def call_def bind_io_def split: option.splits)

lemma acts_get_url: "acts P get_url"
  by (simp add: acts_def get_url_def)

lemma acts_download_media: "acts is_download_effect (download_media E url d fmt)"
  unfolding download_media_def
  by (intro acts_bind acts_with_exit acts_call acts_extract_info acts_prepare_filename
        acts_return) simp_all

lemma acts_download_media_any:
  assumes "\<And>e. is_download_effect e \<Longrightarrow> P e"
  shows "acts P (download_media E url d fmt)"
  unfolding download_media_def
  by (intro acts_bind acts_with_exit acts_call acts_extract_info acts_prepare_filename
        acts_return) (simp_all add: assms)

section \<open>The download configuration (C6)\<close>

lemma outtmpl_rooted:
  "startswith (os_path_join d (ascii ''%(title)s.%(ext)s'')) d
   \<and> endswith (os_path_join d (ascii ''%(title)s.%(ext)s'')) (ascii ''%(title)s.%(ext)s'')"
  by (simp add: os_path_join_def startswith_def endswith_def ascii_def)

lemma download_media_first_effect:
  "\<exists>rest. trace (snd (download_media E url d fmt w))
           = trace w @ YoutubeDL (ydl_opts d fmt) # rest"
  by (auto simp add: download_media_def io_defs extract_info_def prepare_filename_def Let_def
        split: option.splits prod.splits sum.splits)

lemma download_media_value:
  assumes "fst (download_media E url d fmt w) = Inr p"
  shows "p = (let t = trace w @ [YoutubeDL (ydl_opts d fmt), ExtractInfo url];
                  f = prepare_filename_value E (t @ [PrepareFilename (extract_info_value E t)])
              in if fmt = ascii ''audio'' then fst (splitext f) @ ascii ''.mp3'' else f)"
  using assms
  by (auto simp add: download_media_def io_defs extract_info_def prepare_filename_def Let_def
        split: option.splits prod.splits sum.splits if_splits)

lemma download_media_calls:
  assumes "fst (download_media E url d fmt w) = Inr p"
  shows "trace (snd (download_media E url d fmt w))
           = (let t = trace w @ [YoutubeDL (ydl_opts d fmt), ExtractInfo url]
              in t @ [PrepareFilename (extract_info_value E t), YoutubeDLExit])"
  using assms
  by (auto simp add: download_media_def io_defs extract_info_def prepare_filename_def Let_def
        split: option.splits prod.splits sum.splits if_splits)

lemma splitext_loop_parts:
  "fst (splitext_loop p i k) @ snd (splitext_loop p i k) = p"
  by (induction p i k rule: splitext_loop.induct) (simp add: splitext_loop.simps)

lemma splitext_parts: "fst (splitext p) @ snd (splitext p) = p"
  by (simp add: splitext_def Let_def splitext_loop_parts)

text \<open>
  C6. For every format choice the options handed to the download library are the fixed
  record: the quality selector \<open>bestaudio/best\<close> for audio and
  \<open>bestvideo+bestaudio/best\<close> otherwise, the output template \<open>%(title)s.%(ext)s\<close>
  joined to the caller's directory (so the directory is a prefix of it), no playlist,
  resume, 10 retries, 10 fragment retries, a socket timeout of 10, a chunk size of
  10 MiB, \<open>aria2c\<close> with \<open>-x 16 -k 1M\<close>, and for audio only the post-processor
  \<open>FFmpegExtractAudio\<close> to mp3 at quality 192. The record is complete before the first
  call that leaves the program, which is the one that hands it to the library. When
  \<open>download_media\<close> returns, its calls were exactly the construction with that record,
  \<open>extract_info\<close> on the URL, \<open>prepare_filename\<close> on the information extracted and
  the exit; the path returned is the file name \<open>f\<close> that \<open>prepare_filename\<close>
  answered, unchanged unless the format is \<open>audio\<close>, and for \<open>audio\<close> it is \<open>f\<close>
  without the extension that \<open>splitext\<close> splits off, followed by \<open>.mp3\<close>.
\<close>

theorem download_configuration:
  "ydl_opts d fmt = \<lparr>
      format = (if fmt = ascii ''audio'' then ascii ''bestaudio/best''
                else ascii ''bestvideo+bestaudio/best''),
      outtmpl = os_path_join d (ascii ''%(title)s.%(ext)s''),
      noplaylist = True,
      continuedl = True,
      retries = 10,
      fragment_retries = 10,
      socket_timeout = 10,
      http_chunk_size = 10 * 2 ^ 20,
      external_downloader = ascii ''aria2c'',
      external_downloader_args = [ascii ''-x'', ascii ''16'', ascii ''-k'', ascii ''1M''],
      quiet = True,
      postprocessors =
        (if fmt = ascii ''audio''
         then Some [\<lparr> key = ascii ''FFmpegExtractAudio'', preferredcodec = ascii ''mp3'',
                      preferredquality = ascii ''192'' \<rparr>]
         else None) \<rparr>
   \<and> startswith (outtmpl (ydl_opts d fmt)) d
   \<and> endswith (outtmpl (ydl_opts d fmt)) (ascii ''%(title)s.%(ext)s'')
   \<and> (\<exists>rest. trace (snd (download_media E url d fmt w))
               = trace w @ YoutubeDL (ydl_opts d fmt) # rest)
   \<and> (\<forall>p. fst (download_media E url d fmt w) = Inr p \<longrightarrow>
          (let t = trace w @ [YoutubeDL (ydl_opts d fmt), ExtractInfo url];
               i = extract_info_value E t;
               f = prepare_filename_value E (t @ [PrepareFilename i])
           in trace (snd (download_media E url d fmt w)) = t @ [PrepareFilename i, YoutubeDLExit]
              \<and> p = (if fmt = ascii ''audio'' then fst (splitext f) @ ascii ''.mp3'' else f)
              \<and> fst (splitext f) @ snd (splitext f) = f))"
proof -
  have rec: "ydl_opts d fmt = \<lparr>
      format = (if fmt = ascii ''audio'' then ascii ''bestaudio/best''
                else ascii ''bestvideo+bestaudio/best''),
      outtmpl = os_path_join d (ascii ''%(title)s.%(ext)s''),
      noplaylist = True, continuedl = True, retries = 10, fragment_retries = 10,
      socket_timeout = 10, http_chunk_size = 10 * 2 ^ 20,
      external_downloader = ascii ''aria2c'',
      external_downloader_args = [ascii ''-x'', ascii ''16'', ascii ''-k'', ascii ''1M''],
      quiet = True,
      postprocessors =
        (if fmt = ascii ''audio''
         then Some [\<lparr> key = ascii ''FFmpegExtractAudio'', preferredcodec = ascii ''mp3'',
                      preferredquality = ascii ''192'' \<rparr>]
         else None) \<rparr>"
    by (simp add: ydl_opts_def)
  have tmpl: "outtmpl (ydl_opts d fmt) = os_path_join d (ascii ''%(title)s.%(ext)s'')"
    by (simp add: ydl_opts_def)
  have result: "(let t = trace w @ [YoutubeDL (ydl_opts d fmt), ExtractInfo url];
               i = extract_info_value E t;
               f = prepare_filename_value E (t @ [PrepareFilename i])
           in trace (snd (download_media E url d fmt w)) = t @ [PrepareFilename i, YoutubeDLExit]
              \<and> p = (if fmt = ascii ''audio'' then fst (splitext f) @ ascii ''.mp3'' else f)
              \<and> fst (splitext f) @ snd (splitext f) = f)"
    if "fst (download_media E url d fmt w) = Inr p" for p
    using download_media_value[OF that] download_media_calls[OF that]
    by (simp add: Let_def splitext_parts)
  show ?thesis
    using rec tmpl outtmpl_rooted[of d] download_media_first_effect[of E url d fmt w] result
    by simp
qed

theorem download_configuration_witness:
  "fst (download_media calm example_url (ascii ''/tmp/tmpk3v9'') (ascii ''audio'') asked)
     = Inr (ascii ''/tmp/tmpk3v9/clip.mp3'')
   \<and> fst (download_media calm example_url (ascii ''/tmp/tmpk3v9'') (ascii ''video'') asked)
       = Inr (ascii ''/tmp/tmpk3v9/clip.webm'')
   \<and> prepare_filename_value calm
        [YoutubeDL (ydl_opts (ascii ''/tmp/tmpk3v9'') (ascii ''audio'')), ExtractInfo example_url,
         PrepareFilename (extract_info_value calm [])]
       = ascii ''/tmp/tmpk3v9/clip.webm''
   \<and> splitext (ascii ''/tmp/tmpk3v9/clip.webm'') = (ascii ''/tmp/tmpk3v9/clip'', ascii ''.webm'')
   \<and> trace (snd (download_media calm example_url (ascii ''/tmp/tmpk3v9'') (ascii ''audio'') asked))
       = [YoutubeDL (ydl_opts (ascii ''/tmp/tmpk3v9'') (ascii ''audio'')), ExtractInfo example_url,
          PrepareFilename (extract_info_value calm []), YoutubeDLExit]"
proof -
  have audio: "fst (download_media calm example_url (ascii ''/tmp/tmpk3v9'') (ascii ''audio'') asked)
               = Inr (ascii ''/tmp/tmpk3v9/clip.mp3'')"
    by (simp add: handler_defs io_defs example_defs Let_def splitext_def rfind_def
          splitext_loop.simps ascii_def)
  have video: "fst (download_media calm example_url (ascii ''/tmp/tmpk3v9'') (ascii ''video'') asked)
               = Inr (ascii ''/tmp/tmpk3v9/clip.webm'')"
    by (simp add: handler_defs io_defs example_defs Let_def)
  have name: "prepare_filename_value calm
        [YoutubeDL (ydl_opts (ascii ''/tmp/tmpk3v9'') (ascii ''audio'')), ExtractInfo example_url,
         PrepareFilename (extract_info_value calm [])]
       = ascii ''/tmp/tmpk3v9/clip.webm''"
    by (simp add: example_defs)
  have split: "splitext (ascii ''/tmp/tmpk3v9/clip.webm'')
                 = (ascii ''/tmp/tmpk3v9/clip'', ascii ''.webm'')"
    by (simp add: splitext_def rfind_def splitext_loop.simps ascii_def)
  have start: "trace asked = []"
    by (simp add: example_defs)
  have same: "extract_info_value calm t = extract_info_value calm []" for t
    by (simp add: example_defs)
  from download_configuration[of "ascii ''/tmp/tmpk3v9''" "ascii ''audio''" calm example_url asked]
    audio
  have "trace (snd (download_media calm example_url (ascii ''/tmp/tmpk3v9'') (ascii ''audio'') asked))
       = [YoutubeDL (ydl_opts (ascii ''/tmp/tmpk3v9'') (ascii ''audio'')), ExtractInfo example_url,
          PrepareFilename (extract_info_value calm []), YoutubeDLExit]"
    by (simp add: Let_def start same[of "[YoutubeDL (ydl_opts (ascii ''/tmp/tmpk3v9'') (ascii ''audio'')), ExtractInfo example_url]"])
  with audio video name split show ?thesis by simp
qed

section \<open>The handler of the format choice\<close>

lemma handle_format_choice_entered:
  assumes "entered E choice w = Some (url, d, w1)"
  shows "handle_format_choice E choice w = delivery E url d choice w1"
  using assms
  by (auto simp add: entered_def handle_format_choice_def get_url_def mkdtemp_def io_defs Let_def
        split: option.splits if_splits)

lemma entered_facts:
  assumes "entered E choice w = Some (url, d, w1)"
  shows "map_of (user_data w) (ascii ''url'') = Some url" "url \<noteq> []"
    "trace w1 = trace w @ [Answer, EditMessageText (downloading_text choice), Mkdtemp]"
    "fs w1 = fs w @ [d]" "user_data w1 = user_data w" "conv w1 = conv w"
  using assms
  by (auto simp add: entered_def Let_def split: option.splits if_splits)

lemma trace_rmtree: "trace (rmtree E d w) = trace w @ [Rmtree d]"
  by (simp add: rmtree_def Let_def)

lemma fs_rmtree:
  "fs (rmtree E d w)
     = filter (\<lambda>p. if under d p then p \<in> set (rmtree_left E (trace w @ [Rmtree d])) else True)
         (fs w)"
  by (simp add: rmtree_def Let_def)

lemma rmtree_complete:
  assumes "rmtree_left E (trace w @ [Rmtree d]) = []"
  shows "\<not> list_ex (under d) (fs (rmtree E d w))"
  using assms by (simp add: fs_rmtree list_ex_iff)

lemma rmtree_keeps: "user_data (rmtree E d w) = user_data w" "conv (rmtree E d w) = conv w"
  by (simp_all add: rmtree_def Let_def)

lemma delivery_run:
  assumes "try_except (deliver E url d choice) (report E) w1 = (r, w2)"
  shows "delivery E url d choice w1 = (r, rmtree E d w2)"
  using assms by (simp add: delivery_def try_finally_def)

subsection \<open>What \<open>rmtree\<close> leaves behind plays no part before it runs\<close>

lemma call_left: "call (E\<lparr>rmtree_left := l\<rparr>) = call E"
  by (rule ext)+ (simp add: call_def)

lemma extract_info_left: "extract_info (E\<lparr>rmtree_left := l\<rparr>) = extract_info E"
  by (rule ext)+ (simp add: extract_info_def Let_def split: option.splits)

lemma prepare_filename_left: "prepare_filename (E\<lparr>rmtree_left := l\<rparr>) = prepare_filename E"
  by (rule ext)+ (simp add: prepare_filename_def call_left)

lemma download_media_left: "download_media (E\<lparr>rmtree_left := l\<rparr>) = download_media E"
  by (rule ext)+
    (simp add: download_media_def call_left extract_info_left prepare_filename_left)

lemma deliver_left: "deliver (E\<lparr>rmtree_left := l\<rparr>) = deliver E"
  by (rule ext)+
    (simp add: deliver_def countdown_def send_media_def call_left download_media_left
       cong: if_cong)

lemma report_left: "report (E\<lparr>rmtree_left := l\<rparr>) = report E"
  by (rule ext)+ (simp add: report_def call_left)

lemma entered_left: "entered (E\<lparr>rmtree_left := l\<rparr>) = entered E"
  by (rule ext)+ (simp add: entered_def Let_def split: option.splits)

subsection \<open>The \<open>except\<close> clause\<close>

lemma report_run:
  "report E e w =
     (case raises E (trace w @ [LogException (ascii ''Download error'') e])
             (ReplyText (error_text e)) of
        None \<Rightarrow> Inr (Next ASK_LINK)
      | Some x \<Rightarrow> Inl x,
      w\<lparr>trace := trace w @ [LogException (ascii ''Download error'') e, ReplyText (error_text e)]\<rparr>)"
  by (simp add: report_def logger_exception_def io_defs split: option.splits)

lemma delivery_caught:
  assumes "deliver E url d choice w1 = (Inl (Exception c), w2)"
    and "raises E (trace w2 @ [LogException (ascii ''Download error'') (Exception c)])
           (ReplyText (error_text (Exception c))) = None"
  shows "delivery E url d choice w1 =
           (Inr (Next ASK_LINK),
            rmtree E d (w2\<lparr>trace := trace w2 @ [LogException (ascii ''Download error'') (Exception c),
                                                  ReplyText (error_text (Exception c))]\<rparr>))"
  using assms by (simp add: delivery_def try_finally_def try_except_def report_run)

lemma error_text_Exception:
  "error_text (Exception c) = [0x274C] @ ascii '' Error during download: '' @ c"
  by (simp add: error_text_def)

lemma process_update_callback:
  assumes "conv w = Some ASK_FORMAT"
    and "handle_format_choice E choice w = (Inr (Next st), w')"
  shows "process_update E (CallbackQuery choice) w = w'\<lparr>conv := Some st\<rparr>"
  using assms by (simp add: process_update_def check_update_def)

lemma acts_countdown:
  assumes "\<And>e. is_tick e \<Longrightarrow> P e"
  shows "acts P (countdown E choice)"
  unfolding countdown_def
  by (intro acts_for_each acts_bind acts_call) (simp_all add: assms)

lemma acts_send_media:
  assumes "P (OpenFile p)" "P (CloseFile p)" "P (ReplyVideo p)" "P (ReplyAudio p)"
  shows "acts P (send_media E choice p)"
  unfolding send_media_def
  by (intro acts_bind acts_with_exit acts_call) (simp_all add: assms acts_call)

lemma acts_report:
  assumes "\<And>msg. P (LogException msg e)" "\<And>t. P (ReplyText t)"
  shows "acts P (report E e)"
  unfolding report_def
  by (intro acts_bind acts_logger_exception acts_call acts_return) (simp_all add: assms)

lemma delivery_not_caught:
  assumes "deliver E url d choice w1 = (Inl (BaseOnly c), w2)"
  shows "delivery E url d choice w1 = (Inl (BaseOnly c), rmtree E d w2)"
  using assms by (simp add: delivery_def try_finally_def try_except_def)

lemma delivery_done:
  assumes "deliver E url d choice w1 = (Inr st, w2)"
  shows "delivery E url d choice w1 = (Inr st, rmtree E d w2)"
  using assms by (simp add: delivery_def try_finally_def try_except_def)

section \<open>Removal of the temporary directory (C1)\<close>

text \<open>
  C1. Whenever the handler has created its temporary directory, whatever the outside
  does afterwards (a successful send, a failing download, any other exception, a
  cancellation): the handler ends as its \<open>try ... except\<close> part ends, its last call is
  the recursive removal of that directory, after the removal no path under the
  directory is left unless the removal failed on it, and what the removal fails on
  changes neither the handler's result nor the calls it makes.
\<close>

theorem temp_dir_removed:
  assumes "entered E choice w = Some (url, d, w1)"
  shows "\<exists>r w2. try_except (deliver E url d choice) (report E) w1 = (r, w2)
          \<and> handle_format_choice E choice w = (r, rmtree E d w2)
          \<and> trace (rmtree E d w2) = trace w2 @ [Rmtree d]
          \<and> (rmtree_left E (trace w2 @ [Rmtree d]) = []
               \<longrightarrow> \<not> list_ex (under d) (fs (rmtree E d w2)))
          \<and> (\<forall>left. fst (handle_format_choice (E\<lparr>rmtree_left := left\<rparr>) choice w) = r
                \<and> trace (snd (handle_format_choice (E\<lparr>rmtree_left := left\<rparr>) choice w))
                    = trace w2 @ [Rmtree d])"
proof -
  obtain r w2 where run: "try_except (deliver E url d choice) (report E) w1 = (r, w2)"
    by (cases "try_except (deliver E url d choice) (report E) w1")
  have here: "handle_format_choice E choice w = (r, rmtree E d w2)"
    using handle_format_choice_entered[OF assms] delivery_run[OF run] by simp
  have other: "handle_format_choice (E\<lparr>rmtree_left := left\<rparr>) choice w
                 = (r, rmtree (E\<lparr>rmtree_left := left\<rparr>) d w2)" for left
  proof -
    have "entered (E\<lparr>rmtree_left := left\<rparr>) choice w = Some (url, d, w1)"
      using assms by (simp add: entered_left)
    moreover have "try_except (deliver (E\<lparr>rmtree_left := left\<rparr>) url d choice)
                     (report (E\<lparr>rmtree_left := left\<rparr>)) w1 = (r, w2)"
      using run by (simp add: deliver_left report_left)
    ultimately show ?thesis
      using handle_format_choice_entered delivery_run by simp
  qed
  show ?thesis
    using run here other rmtree_complete[of E w2 d] by (auto simp add: trace_rmtree)
qed

theorem temp_dir_removed_witness:
  "entered (failing (Sleep 1) (BaseOnly (ascii ''cancelled''))) (ascii ''video'') asked
     = Some (example_url, ascii ''/tmp/tmpk3v9'',
             asked\<lparr>trace := [Answer, EditMessageText (downloading_text (ascii ''video'')), Mkdtemp],
                   fs := [ascii ''/tmp/tmpk3v9'']\<rparr>)
   \<and> fst (handle_format_choice (failing (Sleep 1) (BaseOnly (ascii ''cancelled'')))
            (ascii ''video'') asked) = Inl (BaseOnly (ascii ''cancelled''))
   \<and> last (trace (snd (handle_format_choice (failing (Sleep 1) (BaseOnly (ascii ''cancelled'')))
            (ascii ''video'') asked))) = Rmtree (ascii ''/tmp/tmpk3v9'')
   \<and> fs (snd (handle_format_choice (failing (Sleep 1) (BaseOnly (ascii ''cancelled'')))
            (ascii ''video'') asked)) = []
   \<and> fst (handle_format_choice sticky (ascii ''video'') asked) = Inr (Next ASK_LINK)
   \<and> fs (snd (handle_format_choice sticky (ascii ''video'') asked))
       = [ascii ''/tmp/tmpk3v9'', ascii ''/tmp/tmpk3v9/clip.webm'']"
proof -
  let ?E = "failing (Sleep 1) (BaseOnly (ascii ''cancelled''))"
  let ?d = "ascii ''/tmp/tmpk3v9''"
  let ?w1 = "asked\<lparr>trace := [Answer, EditMessageText (downloading_text (ascii ''video'')), Mkdtemp],
                 fs := [?d]\<rparr>"
  have ent: "entered ?E (ascii ''video'') asked = Some (example_url, ?d, ?w1)"
    by (simp add: entered_def example_defs Let_def)
  have res: "fst (handle_format_choice ?E (ascii ''video'') asked)
               = Inl (BaseOnly (ascii ''cancelled''))"
    by (simp add: handler_defs io_defs example_defs Let_def)
  have gone: "fs (snd (handle_format_choice ?E (ascii ''video'') asked)) = []"
    by (simp add: handler_defs io_defs example_defs Let_def under_def startswith_def ascii_def)
  from temp_dir_removed[OF ent] obtain r w2 where
    "handle_format_choice ?E (ascii ''video'') asked = (r, rmtree ?E ?d w2)"
    "trace (rmtree ?E ?d w2) = trace w2 @ [Rmtree ?d]"
    by blast
  then have "last (trace (snd (handle_format_choice ?E (ascii ''video'') asked))) = Rmtree ?d"
    by simp
  moreover have "fst (handle_format_choice sticky (ascii ''video'') asked) = Inr (Next ASK_LINK)"
    by (simp add: handler_defs io_defs example_defs Let_def)
  moreover have "fs (snd (handle_format_choice sticky (ascii ''video'') asked))
                   = [ascii ''/tmp/tmpk3v9'', ascii ''/tmp/tmpk3v9/clip.webm'']"
    by (simp add: handler_defs io_defs example_defs Let_def under_def startswith_def ascii_def)
  ultimately show ?thesis
    using ent res gone by simp
qed

subsection \<open>Effects of one kind are not of another\<close>

lemma download_effects_no_tick:
  assumes "list_all is_download_effect es"
  shows "filter is_tick es = []" "filter is_media es = []"
proof -
  have "\<not> is_tick e \<and> \<not> is_media e" if "is_download_effect e" for e
    using that by (cases e) simp_all
  with assms show "filter is_tick es = []" "filter is_media es = []"
    by (auto simp add: filter_empty_conv list_all_iff)
qed

lemma no_tick_filter:
  assumes "list_all (\<lambda>e. \<not> is_tick e) es"
  shows "filter is_tick es = []"
  using assms by (auto simp add: filter_empty_conv list_all_iff)

lemma deliver_fetch_failed:
  assumes "download_media E url d choice w1 = (Inl x, w2)"
  shows "deliver E url d choice w1 = (Inl x, w2)"
  using assms by (simp add: deliver_def bind_io_Inl)

subsection \<open>The countdown\<close>

lemma countdown_run:
  assumes "\<forall>t n. raises E t (EditText (sending_text choice n)) = None"
    and "\<forall>t. raises E t (Sleep 1) = None"
  shows "countdown E choice w =
           (Inr (), w\<lparr>trace := trace w @
              [EditText (sending_text choice 5), Sleep 1,
               EditText (sending_text choice 4), Sleep 1,
               EditText (sending_text choice 3), Sleep 1,
               EditText (sending_text choice 2), Sleep 1,
               EditText (sending_text choice 1), Sleep 1]\<rparr>)"
  using assms by (simp add: countdown_def range_down_5 io_defs)

lemma sending_text_values:
  "sending_text choice 5
     = [0x1F680] @ ascii '' Sending your '' @ choice @ ascii '' in 5 seconds'' @ [0x2026]"
  "sending_text choice 4
     = [0x1F680] @ ascii '' Sending your '' @ choice @ ascii '' in 4 seconds'' @ [0x2026]"
  "sending_text choice 3
     = [0x1F680] @ ascii '' Sending your '' @ choice @ ascii '' in 3 seconds'' @ [0x2026]"
  "sending_text choice 2
     = [0x1F680] @ ascii '' Sending your '' @ choice @ ascii '' in 2 seconds'' @ [0x2026]"
  "sending_text choice 1
     = [0x1F680] @ ascii '' Sending your '' @ choice @ ascii '' in 1 second'' @ [0x2026]"
  by (simp_all add: sending_text_def str_nat.simps ascii_def)

lemma acts_after_open:
  "acts (\<lambda>e. \<not> is_tick e) (after_open E choice p failure)"
  unfolding after_open_def
  by (cases failure)
    (auto intro!: acts_bind acts_with_exit acts_call acts_return acts_raise)

lemma deliver_after_countdown:
  assumes "download_media E url d choice w1 = (Inr p, w2)"
    and "countdown E choice w2 = (Inr (), w3)"
  shows "deliver E url d choice w1 =
           after_open E choice p (raises E (trace w3) (OpenFile p))
             (w3\<lparr>trace := trace w3 @ [OpenFile p]\<rparr>)"
  using assms
  by (simp add: deliver_def bind_io_Inr after_open_def send_media_def bind_io_def call_def
        raise_io_def split: option.splits)

section \<open>A failing download (C3)\<close>

text \<open>
  C3. When the download fails with an exception whose text is \<open>c\<close>, and the reply with
  the error message returns, the handler's calls are: the three before the \<open>try\<close>
  statement, the calls on the download library, the log entry \<open>Download error\<close> with
  the exception itself, one reply whose text is the cross mark, \<open>Error during
  download:\<close> and \<open>c\<close>, and the removal of the directory. No tick of the countdown and
  no media attachment is among them, the handler returns \<open>ASK_LINK\<close>, and the
  conversation is in that state afterwards.
\<close>

theorem fetch_failure_reported:
  assumes "entered E choice w = Some (url, d, w1)"
    and "download_media E url d choice w1 = (Inl (Exception c), w2)"
    and "raises E (trace w2 @ [LogException (ascii ''Download error'') (Exception c)])
           (ReplyText ([0x274C] @ ascii '' Error during download: '' @ c)) = None"
    and "conv w = Some ASK_FORMAT"
  shows "\<exists>es w'. handle_format_choice E choice w = (Inr (Next ASK_LINK), w')
          \<and> trace w' = trace w @ [Answer, EditMessageText (downloading_text choice), Mkdtemp] @ es
               @ [LogException (ascii ''Download error'') (Exception c),
                  ReplyText ([0x274C] @ ascii '' Error during download: '' @ c), Rmtree d]
          \<and> list_all is_download_effect es
          \<and> filter is_tick (drop (length (trace w)) (trace w')) = []
          \<and> filter is_media (drop (length (trace w)) (trace w')) = []
          \<and> process_update E (CallbackQuery choice) w = w'\<lparr>conv := Some ASK_LINK\<rparr>"
proof -
  let ?log = "LogException (ascii ''Download error'') (Exception c)"
  let ?reply = "ReplyText ([0x274C] @ ascii '' Error during download: '' @ c)"
  let ?w' = "rmtree E d (w2\<lparr>trace := trace w2 @ [?log, ?reply]\<rparr>)"
  from actsD[OF acts_download_media assms(2)] obtain es where
    es: "trace w2 = trace w1 @ es" "list_all is_download_effect es"
    by blast
  have run: "handle_format_choice E choice w = (Inr (Next ASK_LINK), ?w')"
    using handle_format_choice_entered[OF assms(1)]
      delivery_caught[OF deliver_fetch_failed[OF assms(2)]] assms(3)
    by (simp add: error_text_Exception)
  have tr: "trace ?w' = trace w @ [Answer, EditMessageText (downloading_text choice), Mkdtemp] @ es
               @ [?log, ?reply, Rmtree d]"
    using es entered_facts(3)[OF assms(1)] by (simp add: trace_rmtree)
  have quiet: "filter is_tick (drop (length (trace w)) (trace ?w')) = []"
    "filter is_media (drop (length (trace w)) (trace ?w')) = []"
    using download_effects_no_tick[OF es(2)] unfolding tr by simp_all
  have "process_update E (CallbackQuery choice) w = ?w'\<lparr>conv := Some ASK_LINK\<rparr>"
    using process_update_callback[OF assms(4) run] .
  with run tr es(2) quiet show ?thesis by blast
qed

theorem fetch_failure_reported_witness:
  "entered (failing (ExtractInfo example_url) (Exception (ascii ''Unsupported URL'')))
       (ascii ''video'') asked
     = Some (example_url, ascii ''/tmp/tmpk3v9'',
             asked\<lparr>trace := [Answer, EditMessageText (downloading_text (ascii ''video'')), Mkdtemp],
                   fs := [ascii ''/tmp/tmpk3v9'']\<rparr>)
   \<and> fst (download_media (failing (ExtractInfo example_url) (Exception (ascii ''Unsupported URL'')))
            example_url (ascii ''/tmp/tmpk3v9'') (ascii ''video'')
            (asked\<lparr>trace := [Answer, EditMessageText (downloading_text (ascii ''video'')), Mkdtemp],
                   fs := [ascii ''/tmp/tmpk3v9'']\<rparr>))
       = Inl (Exception (ascii ''Unsupported URL''))
   \<and> conv asked = Some ASK_FORMAT
   \<and> fst (handle_format_choice (failing (ExtractInfo example_url) (Exception (ascii ''Unsupported URL'')))
            (ascii ''video'') asked) = Inr (Next ASK_LINK)
   \<and> conv (process_update (failing (ExtractInfo example_url) (Exception (ascii ''Unsupported URL'')))
            (CallbackQuery (ascii ''video'')) asked) = Some ASK_LINK
   \<and> trace (process_update (failing (ExtractInfo example_url) (Exception (ascii ''Unsupported URL'')))
            (CallbackQuery (ascii ''video'')) asked)
       = [Answer, EditMessageText (downloading_text (ascii ''video'')), Mkdtemp,
          YoutubeDL (ydl_opts (ascii ''/tmp/tmpk3v9'') (ascii ''video'')),
          ExtractInfo example_url, YoutubeDLExit,
          LogException (ascii ''Download error'') (Exception (ascii ''Unsupported URL'')),
          ReplyText ([0x274C] @ ascii '' Error during download: Unsupported URL''),
          Rmtree (ascii ''/tmp/tmpk3v9'')]"
proof -
  let ?E = "failing (ExtractInfo example_url) (Exception (ascii ''Unsupported URL''))"
  let ?d = "ascii ''/tmp/tmpk3v9''"
  let ?w1 = "asked\<lparr>trace := [Answer, EditMessageText (downloading_text (ascii ''video'')), Mkdtemp],
                 fs := [?d]\<rparr>"
  have ent: "entered ?E (ascii ''video'') asked = Some (example_url, ?d, ?w1)"
    by (simp add: entered_def example_defs Let_def)
  have dl: "fst (download_media ?E example_url ?d (ascii ''video'') ?w1)
              = Inl (Exception (ascii ''Unsupported URL''))"
    by (simp add: handler_defs io_defs example_defs Let_def)
  then obtain w2 where dl2: "download_media ?E example_url ?d (ascii ''video'') ?w1
              = (Inl (Exception (ascii ''Unsupported URL'')), w2)"
    by (cases "download_media ?E example_url ?d (ascii ''video'') ?w1") simp
  have reply: "raises ?E (trace w2 @ [LogException (ascii ''Download error'')
                                        (Exception (ascii ''Unsupported URL''))])
                 (ReplyText ([0x274C] @ ascii '' Error during download: '' @ ascii ''Unsupported URL''))
               = None"
    by (simp add: example_defs)
  have st: "conv asked = Some ASK_FORMAT"
    by (simp add: example_defs)
  from fetch_failure_reported[OF ent dl2 reply st] obtain es w' where
    run: "handle_format_choice ?E (ascii ''video'') asked = (Inr (Next ASK_LINK), w')"
    and upd: "process_update ?E (CallbackQuery (ascii ''video'')) asked = w'\<lparr>conv := Some ASK_LINK\<rparr>"
    by blast
  have tr: "trace (snd (handle_format_choice ?E (ascii ''video'') asked))
       = [Answer, EditMessageText (downloading_text (ascii ''video'')), Mkdtemp,
          YoutubeDL (ydl_opts ?d (ascii ''video'')),
          ExtractInfo example_url, YoutubeDLExit,
          LogException (ascii ''Download error'') (Exception (ascii ''Unsupported URL'')),
          ReplyText ([0x274C] @ ascii '' Error during download: Unsupported URL''),
          Rmtree ?d]"
    by (simp add: handler_defs io_defs example_defs Let_def error_text_def ascii_def)
  from run upd tr ent dl st show ?thesis by simp
qed

section \<open>Any exception of the \<open>try\<close> block (C10)\<close>

text \<open>
  C10, as the specification states it, fails: \<open>except Exception\<close> catches the
  instances of \<open>Exception\<close> only. Here the first pause of the countdown is cancelled,
  which raises an exception outside \<open>Exception\<close>: the handler ends with that
  exception, nothing is logged, no error message is sent, the directory is removed, and
  the conversation stays in \<open>ASK_FORMAT\<close>.
\<close>

theorem cancellation_not_reported:
  "fst (handle_format_choice (failing (Sleep 1) (BaseOnly (ascii ''cancelled'')))
          (ascii ''video'') asked) = Inl (BaseOnly (ascii ''cancelled''))
   \<and> conv (process_update (failing (Sleep 1) (BaseOnly (ascii ''cancelled'')))
             (CallbackQuery (ascii ''video'')) asked) = Some ASK_FORMAT
   \<and> trace (process_update (failing (Sleep 1) (BaseOnly (ascii ''cancelled'')))
             (CallbackQuery (ascii ''video'')) asked)
       = [Answer, EditMessageText (downloading_text (ascii ''video'')), Mkdtemp,
          YoutubeDL (ydl_opts (ascii ''/tmp/tmpk3v9'') (ascii ''video'')),
          ExtractInfo example_url, PrepareFilename (extract_info_value calm []), YoutubeDLExit,
          EditText (sending_text (ascii ''video'') 5), Sleep 1,
          Rmtree (ascii ''/tmp/tmpk3v9'')]"
  by (simp add: process_update_def check_update_def handler_defs io_defs example_defs Let_def)

text \<open>
  C10, amended. Whatever step of the \<open>try\<close> block raises an instance of \<open>Exception\<close>
  with text \<open>c\<close> (the download, an edit or a pause of the countdown, the opening or
  closing of the file, the sending of the attachment or of the final prompt), and
  provided the reply with the error message returns: the handler logs the exception,
  replies with the cross mark, \<open>Error during download:\<close> and \<open>c\<close>, removes the
  directory as its last call, returns \<open>ASK_LINK\<close>, and the conversation is in that
  state afterwards.
\<close>

theorem delivery_exception_reported:
  assumes "entered E choice w = Some (url, d, w1)"
    and "deliver E url d choice w1 = (Inl (Exception c), w2)"
    and "raises E (trace w2 @ [LogException (ascii ''Download error'') (Exception c)])
           (ReplyText ([0x274C] @ ascii '' Error during download: '' @ c)) = None"
    and "conv w = Some ASK_FORMAT"
  shows "\<exists>w'. handle_format_choice E choice w = (Inr (Next ASK_LINK), w')
          \<and> trace w' = trace w2
               @ [LogException (ascii ''Download error'') (Exception c),
                  ReplyText ([0x274C] @ ascii '' Error during download: '' @ c), Rmtree d]
          \<and> (rmtree_left E (trace w') = [] \<longrightarrow> \<not> list_ex (under d) (fs w'))
          \<and> process_update E (CallbackQuery choice) w = w'\<lparr>conv := Some ASK_LINK\<rparr>"
proof -
  let ?log = "LogException (ascii ''Download error'') (Exception c)"
  let ?reply = "ReplyText ([0x274C] @ ascii '' Error during download: '' @ c)"
  let ?w3 = "w2\<lparr>trace := trace w2 @ [?log, ?reply]\<rparr>"
  let ?w' = "rmtree E d ?w3"
  have run: "handle_format_choice E choice w = (Inr (Next ASK_LINK), ?w')"
    using handle_format_choice_entered[OF assms(1)] delivery_caught[OF assms(2)] assms(3)
    by (simp add: error_text_Exception)
  have tr: "trace ?w' = trace w2 @ [?log, ?reply, Rmtree d]"
    by (simp add: trace_rmtree)
  have gone: "\<not> list_ex (under d) (fs ?w')" if "rmtree_left E (trace ?w') = []"
    using rmtree_complete[of E ?w3 d] that by (simp add: trace_rmtree)
  have "process_update E (CallbackQuery choice) w = ?w'\<lparr>conv := Some ASK_LINK\<rparr>"
    using process_update_callback[OF assms(4) run] .
  with run tr gone show ?thesis by blast
qed

theorem delivery_exception_reported_witness:
  "entered (failing (ReplyVideo (ascii ''/tmp/tmpk3v9/clip.webm'')) (Exception (ascii ''Timed out'')))
       (ascii ''video'') asked
     = Some (example_url, ascii ''/tmp/tmpk3v9'',
             asked\<lparr>trace := [Answer, EditMessageText (downloading_text (ascii ''video'')), Mkdtemp],
                   fs := [ascii ''/tmp/tmpk3v9'']\<rparr>)
   \<and> fst (deliver (failing (ReplyVideo (ascii ''/tmp/tmpk3v9/clip.webm'')) (Exception (ascii ''Timed out'')))
            example_url (ascii ''/tmp/tmpk3v9'') (ascii ''video'')
            (asked\<lparr>trace := [Answer, EditMessageText (downloading_text (ascii ''video'')), Mkdtemp],
                   fs := [ascii ''/tmp/tmpk3v9'']\<rparr>))
       = Inl (Exception (ascii ''Timed out''))
   \<and> conv asked = Some ASK_FORMAT
   \<and> fst (handle_format_choice
            (failing (ReplyVideo (ascii ''/tmp/tmpk3v9/clip.webm'')) (Exception (ascii ''Timed out'')))
            (ascii ''video'') asked) = Inr (Next ASK_LINK)
   \<and> conv (process_update
            (failing (ReplyVideo (ascii ''/tmp/tmpk3v9/clip.webm'')) (Exception (ascii ''Timed out'')))
            (CallbackQuery (ascii ''video'')) asked) = Some ASK_LINK
   \<and> fs (process_update
            (failing (ReplyVideo (ascii ''/tmp/tmpk3v9/clip.webm'')) (Exception (ascii ''Timed out'')))
            (CallbackQuery (ascii ''video'')) asked) = []
   \<and> drop 20 (trace (process_update
            (failing (ReplyVideo (ascii ''/tmp/tmpk3v9/clip.webm'')) (Exception (ascii ''Timed out'')))
            (CallbackQuery (ascii ''video'')) asked))
       = [LogException (ascii ''Download error'') (Exception (ascii ''Timed out'')),
          ReplyText ([0x274C] @ ascii '' Error during download: Timed out''),
          Rmtree (ascii ''/tmp/tmpk3v9'')]"
proof -
  let ?E = "failing (ReplyVideo (ascii ''/tmp/tmpk3v9/clip.webm'')) (Exception (ascii ''Timed out''))"
  let ?d = "ascii ''/tmp/tmpk3v9''"
  let ?w1 = "asked\<lparr>trace := [Answer, EditMessageText (downloading_text (ascii ''video'')), Mkdtemp],
                 fs := [?d]\<rparr>"
  have ent: "entered ?E (ascii ''video'') asked = Some (example_url, ?d, ?w1)"
    by (simp add: entered_def example_defs Let_def)
  have dl: "fst (deliver ?E example_url ?d (ascii ''video'') ?w1)
              = Inl (Exception (ascii ''Timed out''))"
    by (simp add: handler_defs io_defs example_defs Let_def)
  then obtain w2 where dl2: "deliver ?E example_url ?d (ascii ''video'') ?w1
              = (Inl (Exception (ascii ''Timed out'')), w2)"
    by (cases "deliver ?E example_url ?d (ascii ''video'') ?w1") simp
  have reply: "raises ?E (trace w2 @ [LogException (ascii ''Download error'')
                                        (Exception (ascii ''Timed out''))])
                 (ReplyText ([0x274C] @ ascii '' Error during download: '' @ ascii ''Timed out''))
               = None"
    by (simp add: example_defs)
  have st: "conv asked = Some ASK_FORMAT"
    by (simp add: example_defs)
  from delivery_exception_reported[OF ent dl2 reply st] obtain w' where
    run: "handle_format_choice ?E (ascii ''video'') asked = (Inr (Next ASK_LINK), w')"
    and upd: "process_update ?E (CallbackQuery (ascii ''video'')) asked = w'\<lparr>conv := Some ASK_LINK\<rparr>"
    by blast
  have tr: "drop 20 (trace (snd (handle_format_choice ?E (ascii ''video'') asked)))
       = [LogException (ascii ''Download error'') (Exception (ascii ''Timed out'')),
          ReplyText ([0x274C] @ ascii '' Error during download: Timed out''),
          Rmtree ?d]"
    by (simp add: handler_defs io_defs example_defs Let_def error_text_def ascii_def)
  have gone: "fs (snd (handle_format_choice ?E (ascii ''video'') asked)) = []"
    by (simp add: handler_defs io_defs example_defs Let_def under_def startswith_def ascii_def)
  from run upd tr gone ent dl st show ?thesis by simp
qed

section \<open>The countdown (C5)\<close>

text \<open>
  C5. When the download has returned a path and neither the edits nor the pauses of the
  countdown raise, the handler's calls after the download are exactly: the edit of the
  status message for 5, a pause of one second, then the same for 4, 3, 2 and 1, and
  only then the opening of the file that is sent. No other call of \<open>edit_text\<close> on
  the status message and no other pause occurs before or after (the message is made
  the status message earlier, through the button press), and nothing is sent before.
  The text of an edit is the rocket, \<open>Sending your\<close>, the choice, \<open>in\<close>, the
  number and \<open>seconds\<close>, or \<open>second\<close> for 1, and the ellipsis.
\<close>

theorem countdown_before_sending:
  assumes "entered E choice w = Some (url, d, w1)"
    and "download_media E url d choice w1 = (Inr p, w2)"
    and "\<forall>t n. raises E t (EditText (sending_text choice n)) = None"
    and "\<forall>t. raises E t (Sleep 1) = None"
  shows "\<exists>pre rest.
           trace (snd (handle_format_choice E choice w))
             = trace w @ pre
               @ [EditText ([0x1F680] @ ascii '' Sending your '' @ choice
                            @ ascii '' in 5 seconds'' @ [0x2026]), Sleep 1,
                  EditText ([0x1F680] @ ascii '' Sending your '' @ choice
                            @ ascii '' in 4 seconds'' @ [0x2026]), Sleep 1,
                  EditText ([0x1F680] @ ascii '' Sending your '' @ choice
                            @ ascii '' in 3 seconds'' @ [0x2026]), Sleep 1,
                  EditText ([0x1F680] @ ascii '' Sending your '' @ choice
                            @ ascii '' in 2 seconds'' @ [0x2026]), Sleep 1,
                  EditText ([0x1F680] @ ascii '' Sending your '' @ choice
                            @ ascii '' in 1 second'' @ [0x2026]), Sleep 1]
               @ OpenFile p # rest
         \<and> trace w2 = trace w @ pre
         \<and> filter is_tick pre = [] \<and> filter is_media pre = []
         \<and> filter is_tick rest = []"
proof -
  let ?ticks = "[EditText (sending_text choice 5), Sleep 1,
                 EditText (sending_text choice 4), Sleep 1,
                 EditText (sending_text choice 3), Sleep 1,
                 EditText (sending_text choice 2), Sleep 1,
                 EditText (sending_text choice 1), Sleep 1]"
  let ?w3 = "w2\<lparr>trace := trace w2 @ ?ticks\<rparr>"
  let ?w4 = "?w3\<lparr>trace := trace ?w3 @ [OpenFile p]\<rparr>"
  let ?rest = "try_finally
                 (try_except (after_open E choice p (raises E (trace ?w3) (OpenFile p))) (report E))
                 (rmtree E d)"
  from actsD[OF acts_download_media assms(2)] obtain es where
    es: "trace w2 = trace w1 @ es" "list_all is_download_effect es"
    by blast
  let ?pre = "[Answer, EditMessageText (downloading_text choice), Mkdtemp] @ es"
  have pre: "trace w2 = trace w @ ?pre"
    using es(1) entered_facts(3)[OF assms(1)] by simp
  have quiet: "filter is_tick ?pre = []" "filter is_media ?pre = []"
    using download_effects_no_tick[OF es(2)] by simp_all
  have cd: "countdown E choice w2 = (Inr (), ?w3)"
    using countdown_run[OF assms(3) assms(4)] .
  have "deliver E url d choice w1
          = after_open E choice p (raises E (trace ?w3) (OpenFile p)) ?w4"
    using deliver_after_countdown[OF assms(2) cd] .
  then have run: "handle_format_choice E choice w = ?rest ?w4"
    using handle_format_choice_entered[OF assms(1)]
    by (simp add: delivery_def try_finally_shift[OF try_except_shift])
  have "acts (\<lambda>e. \<not> is_tick e) ?rest"
    by (intro acts_try_finally_rmtree acts_try_except acts_after_open acts_report) simp_all
  then obtain rest where rest: "trace (snd (?rest ?w4)) = trace ?w4 @ rest"
    "list_all (\<lambda>e. \<not> is_tick e) rest"
    unfolding acts_def by blast
  have "trace (snd (handle_format_choice E choice w))
          = trace w @ ?pre @ ?ticks @ OpenFile p # rest"
    using run rest(1) pre by simp
  then have "trace (snd (handle_format_choice E choice w))
          = trace w @ ?pre
               @ [EditText ([0x1F680] @ ascii '' Sending your '' @ choice
                            @ ascii '' in 5 seconds'' @ [0x2026]), Sleep 1,
                  EditText ([0x1F680] @ ascii '' Sending your '' @ choice
                            @ ascii '' in 4 seconds'' @ [0x2026]), Sleep 1,
                  EditText ([0x1F680] @ ascii '' Sending your '' @ choice
                            @ ascii '' in 3 seconds'' @ [0x2026]), Sleep 1,
                  EditText ([0x1F680] @ ascii '' Sending your '' @ choice
                            @ ascii '' in 2 seconds'' @ [0x2026]), Sleep 1,
                  EditText ([0x1F680] @ ascii '' Sending your '' @ choice
                            @ ascii '' in 1 second'' @ [0x2026]), Sleep 1]
               @ OpenFile p # rest"
    unfolding sending_text_values .
  with pre quiet no_tick_filter[OF rest(2)] show ?thesis by blast
qed

theorem countdown_before_sending_witness:
  "fst (download_media calm example_url (ascii ''/tmp/tmpk3v9'') (ascii ''video'')
          (asked\<lparr>trace := [Answer, EditMessageText (downloading_text (ascii ''video'')), Mkdtemp],
                 fs := [ascii ''/tmp/tmpk3v9'']\<rparr>))
     = Inr (ascii ''/tmp/tmpk3v9/clip.webm'')
   \<and> (\<forall>t n. raises calm t (EditText (sending_text (ascii ''video'') n)) = None)
   \<and> (\<forall>t. raises calm t (Sleep 1) = None)
   \<and> take 11 (drop 7 (trace (snd (handle_format_choice calm (ascii ''video'') asked))))
       = [EditText ([0x1F680] @ ascii '' Sending your video in 5 seconds'' @ [0x2026]), Sleep 1,
          EditText ([0x1F680] @ ascii '' Sending your video in 4 seconds'' @ [0x2026]), Sleep 1,
          EditText ([0x1F680] @ ascii '' Sending your video in 3 seconds'' @ [0x2026]), Sleep 1,
          EditText ([0x1F680] @ ascii '' Sending your video in 2 seconds'' @ [0x2026]), Sleep 1,
          EditText ([0x1F680] @ ascii '' Sending your video in 1 second'' @ [0x2026]), Sleep 1,
          OpenFile (ascii ''/tmp/tmpk3v9/clip.webm'')]"
proof -
  let ?d = "ascii ''/tmp/tmpk3v9''"
  let ?w1 = "asked\<lparr>trace := [Answer, EditMessageText (downloading_text (ascii ''video'')), Mkdtemp],
                 fs := [?d]\<rparr>"
  have ent: "entered calm (ascii ''video'') asked = Some (example_url, ?d, ?w1)"
    by (simp add: entered_def example_defs Let_def)
  have dlf: "fst (download_media calm example_url ?d (ascii ''video'') ?w1)
               = Inr (ascii ''/tmp/tmpk3v9/clip.webm'')"
    by (simp add: handler_defs io_defs example_defs Let_def)
  then have dl: "download_media calm example_url ?d (ascii ''video'') ?w1
              = (Inr (ascii ''/tmp/tmpk3v9/clip.webm''),
                 snd (download_media calm example_url ?d (ascii ''video'') ?w1))"
    by (metis prod.collapse)
  have tr2: "trace (snd (download_media calm example_url ?d (ascii ''video'') ?w1))
               = trace asked @ [Answer, EditMessageText (downloading_text (ascii ''video'')), Mkdtemp,
                   YoutubeDL (ydl_opts ?d (ascii ''video'')), ExtractInfo example_url,
                   PrepareFilename (extract_info_value calm []), YoutubeDLExit]"
    by (simp add: handler_defs io_defs example_defs Let_def)
  have e: "\<forall>t n. raises calm t (EditText (sending_text (ascii ''video'') n)) = None"
    and s: "\<forall>t. raises calm t (Sleep 1) = None"
    by (simp_all add: example_defs)
  from countdown_before_sending[OF ent dl e s] obtain pre rest where
    tr: "trace (snd (handle_format_choice calm (ascii ''video'') asked))
             = trace asked @ pre
               @ [EditText ([0x1F680] @ ascii '' Sending your '' @ ascii ''video''
                            @ ascii '' in 5 seconds'' @ [0x2026]), Sleep 1,
                  EditText ([0x1F680] @ ascii '' Sending your '' @ ascii ''video''
                            @ ascii '' in 4 seconds'' @ [0x2026]), Sleep 1,
                  EditText ([0x1F680] @ ascii '' Sending your '' @ ascii ''video''
                            @ ascii '' in 3 seconds'' @ [0x2026]), Sleep 1,
                  EditText ([0x1F680] @ ascii '' Sending your '' @ ascii ''video''
                            @ ascii '' in 2 seconds'' @ [0x2026]), Sleep 1,
                  EditText ([0x1F680] @ ascii '' Sending your '' @ ascii ''video''
                            @ ascii '' in 1 second'' @ [0x2026]), Sleep 1]
               @ OpenFile (ascii ''/tmp/tmpk3v9/clip.webm'') # rest"
    and pre: "trace (snd (download_media calm example_url ?d (ascii ''video'') ?w1)) = trace asked @ pre"
    by blast
  from pre tr2 have "length pre = 7"
    by auto
  with tr have "take 11 (drop 7 (trace (snd (handle_format_choice calm (ascii ''video'') asked))))
       = [EditText ([0x1F680] @ ascii '' Sending your video in 5 seconds'' @ [0x2026]), Sleep 1,
          EditText ([0x1F680] @ ascii '' Sending your video in 4 seconds'' @ [0x2026]), Sleep 1,
          EditText ([0x1F680] @ ascii '' Sending your video in 3 seconds'' @ [0x2026]), Sleep 1,
          EditText ([0x1F680] @ ascii '' Sending your video in 2 seconds'' @ [0x2026]), Sleep 1,
          EditText ([0x1F680] @ ascii '' Sending your video in 1 second'' @ [0x2026]), Sleep 1,
          OpenFile (ascii ''/tmp/tmpk3v9/clip.webm'')]"
    by (simp add: example_defs ascii_def)
  with dlf e s show ?thesis by simp
qed

section \<open>The other handlers and the conversation\<close>

lemma lower_chars_ascii:
  assumes "list_all (\<lambda>c. c < 128) p"
  shows "lower_chars u b (p @ r) = map ascii_lower p @ lower_chars u (b @ p) r"
  using assms by (induction p arbitrary: b) auto

lemma take_lower_ascii:
  assumes "list_all (\<lambda>c. c < 128) (take k s)"
  shows "take k (lower u s) = map ascii_lower (take k s)"
proof -
  have "lower u s = map ascii_lower (take k s) @ lower_chars u (take k s) (drop k s)"
    using lower_chars_ascii[OF assms, of u "[]" "drop k s"] by (simp add: lower_def)
  moreover have "length (take k s) = k \<or> drop k s = []"
    by (cases "k \<le> length s") auto
  ultimately show ?thesis by auto
qed

lemma has_scheme_ascii:
  assumes "list_all (\<lambda>c. c < 128) (take 8 url)"
  shows "has_scheme E url =
           (map ascii_lower (take 7 url) = ascii ''http://''
            \<or> map ascii_lower (take 8 url) = ascii ''https://'')"
proof -
  have seven: "list_all (\<lambda>c. c < 128) (take 7 url)"
    using assms set_take_subset_set_take[of 7 8 url] by (auto simp add: list_all_iff)
  have "length (ascii ''http://'') = 7" "length (ascii ''https://'') = 8"
    by (simp_all add: ascii_def)
  then show ?thesis
    using take_lower_ascii[OF seven, of "ulower E"] take_lower_ascii[OF assms, of "ulower E"]
    by (simp add: has_scheme_def startswith_def)
qed

lemma start_run:
  "start E w = (case raises E (trace w) (ReplyText greeting) of
                  None \<Rightarrow> Inr (Next ASK_LINK) | Some x \<Rightarrow> Inl x,
                w\<lparr>trace := trace w @ [ReplyText greeting]\<rparr>)"
  by (simp add: start_def io_defs split: option.splits)

lemma cancel_run:
  "cancel E w = (case raises E (trace w) (ReplyText cancelled_text) of
                   None \<Rightarrow> Inr END | Some x \<Rightarrow> Inl x,
                 w\<lparr>trace := trace w @ [ReplyText cancelled_text]\<rparr>)"
  by (simp add: cancel_def io_defs split: option.splits)

lemma ask_format_run:
  "ask_format E text w =
     (if has_scheme E (strip text)
      then (case raises E (trace w) (ReplyMarkup format_question keyboard) of
              None \<Rightarrow> Inr (Next ASK_FORMAT) | Some x \<Rightarrow> Inl x,
            w\<lparr>user_data := AList.update (ascii ''url'') (strip text) (user_data w),
               trace := trace w @ [ReplyMarkup format_question keyboard]\<rparr>)
      else (case raises E (trace w) (ReplyText invalid_url_text) of
              None \<Rightarrow> Inr (Next ASK_LINK) | Some x \<Rightarrow> Inl x,
            w\<lparr>trace := trace w @ [ReplyText invalid_url_text]\<rparr>))"
  by (simp add: ask_format_def set_url_def io_defs Let_def split: option.splits)

lemma same_conv:
  assumes "conv w = st"
  shows "w\<lparr>conv := st\<rparr> = w"
  using assms by (cases w) simp

lemma acts_handle_format_choice: "acts (\<lambda>e. True) (handle_format_choice E choice)"
proof -
  have tail: "acts (\<lambda>e. True)
                (case url of
                   None \<Rightarrow> bind_io (call E (EditMessageText missing_url_text)) (\<lambda>_. return_io END)
                 | Some u \<Rightarrow>
                     if u = []
                     then bind_io (call E (EditMessageText missing_url_text)) (\<lambda>_. return_io END)
                     else bind_io (call E (EditMessageText (downloading_text choice))) (\<lambda>_.
                          bind_io (mkdtemp E) (\<lambda>temp_dir. delivery E u temp_dir choice)))"
    for url
    unfolding delivery_def deliver_def
    by (cases url)
      (auto intro!: acts_bind acts_call acts_return acts_mkdtemp acts_try_finally_rmtree
         acts_try_except acts_report acts_download_media_any acts_countdown acts_send_media)
  show ?thesis
    unfolding handle_format_choice_def
    by (intro acts_bind acts_call acts_get_url tail) simp
qed

lemma handle_format_choice_keeps:
  "user_data (snd (handle_format_choice E choice w)) = user_data w"
  "conv (snd (handle_format_choice E choice w)) = conv w"
  using acts_handle_format_choice[of E choice] unfolding acts_def by auto

lemma handle_format_choice_missing:
  assumes "map_of (user_data w) (ascii ''url'') = None"
  shows "handle_format_choice E choice w =
           (case raises E (trace w) Answer of
              Some x \<Rightarrow> (Inl x, w\<lparr>trace := trace w @ [Answer]\<rparr>)
            | None \<Rightarrow>
                (case raises E (trace w @ [Answer]) (EditMessageText missing_url_text) of
                   None \<Rightarrow> Inr END | Some x \<Rightarrow> Inl x,
                 w\<lparr>trace := trace w @ [Answer, EditMessageText missing_url_text]\<rparr>))"
  using assms
  by (simp add: handle_format_choice_def get_url_def io_defs split: option.splits)

section \<open>Receiving a link (C2)\<close>

text \<open>
  C2. In the state \<open>ASK_LINK\<close>, for every text message: if the stripped text, lowered,
  starts neither with \<open>http://\<close> nor with \<open>https://\<close>, the only effect is the reply
  with the validation error, and the state, the dictionary and the disk stay as they
  are. Otherwise the stripped text itself is stored under \<open>url\<close>, the only call is the
  question with the keyboard of the two buttons audio and video, and the state becomes
  \<open>ASK_FORMAT\<close> when that reply returns (it stays \<open>ASK_LINK\<close> when the reply raises).
  Where the first eight code points are ASCII the test is the comparison, letter case
  ignored, of the first seven with \<open>http://\<close> or the first eight with \<open>https://\<close>.
\<close>

theorem ask_format_transition:
  assumes "conv w = Some ASK_LINK"
  shows "(\<not> has_scheme E (strip text) \<longrightarrow>
            process_update E (Text text) w
              = w\<lparr>trace := trace w
                    @ [ReplyText ([0x2757, 0xFE0F]
                         @ ascii '' Please send a valid URL (must start with http:// or https://).'')]\<rparr>)
       \<and> (has_scheme E (strip text) \<longrightarrow>
            user_data (process_update E (Text text) w)
              = AList.update (ascii ''url'') (strip text) (user_data w)
            \<and> map_of (user_data (process_update E (Text text) w)) (ascii ''url'')
                = Some (strip text)
            \<and> trace (process_update E (Text text) w)
                = trace w
                  @ [ReplyMarkup (ascii ''Great! Do you want audio or video?'')
                       [[(ascii ''Audio '' @ [0x1F3B5], ascii ''audio''),
                         (ascii ''Video '' @ [0x1F3A5], ascii ''video'')]]]
            \<and> fs (process_update E (Text text) w) = fs w
            \<and> conv (process_update E (Text text) w)
                = (if raises E (trace w) (ReplyMarkup format_question keyboard) = None
                   then Some ASK_FORMAT else Some ASK_LINK))
       \<and> (list_all (\<lambda>c. c < 128) (take 8 (strip text)) \<longrightarrow>
            has_scheme E (strip text)
              = (map ascii_lower (take 7 (strip text)) = ascii ''http://''
                 \<or> map ascii_lower (take 8 (strip text)) = ascii ''https://''))"
proof -
  have sel: "check_update (conv w) (Text text) = Some (AskFormat text)"
    using assms by (simp add: check_update_def)
  have bad: "process_update E (Text text) w
               = w\<lparr>trace := trace w @ [ReplyText invalid_url_text]\<rparr>"
    if "\<not> has_scheme E (strip text)"
  proof -
    have "conv (w\<lparr>trace := trace w @ [ReplyText invalid_url_text]\<rparr>) = Some ASK_LINK"
      using assms by simp
    from same_conv[OF this] show ?thesis
      using that sel by (simp add: process_update_def ask_format_run split: option.splits)
  qed
  have good: "user_data (process_update E (Text text) w)
              = AList.update (ascii ''url'') (strip text) (user_data w)
            \<and> trace (process_update E (Text text) w)
                = trace w @ [ReplyMarkup format_question keyboard]
            \<and> fs (process_update E (Text text) w) = fs w
            \<and> conv (process_update E (Text text) w)
                = (if raises E (trace w) (ReplyMarkup format_question keyboard) = None
                   then Some ASK_FORMAT else Some ASK_LINK)"
    if "has_scheme E (strip text)"
    using that sel assms
    by (auto simp add: process_update_def ask_format_run split: option.splits)
  have stored: "map_of (AList.update (ascii ''url'') (strip text) (user_data w)) (ascii ''url'')
                  = Some (strip text)"
    by (simp add: update_conv')
  show ?thesis
    using bad good stored has_scheme_ascii[of "strip text" E]
    by (simp add: invalid_url_text_def format_question_def keyboard_def)
qed

theorem ask_format_transition_witness:
  "conv waiting = Some ASK_LINK
   \<and> \<not> has_scheme calm (strip (ascii ''ftp://x.com/a''))
   \<and> process_update calm (Text (ascii ''ftp://x.com/a'')) waiting
       = waiting\<lparr>trace := [ReplyText ([0x2757, 0xFE0F]
                   @ ascii '' Please send a valid URL (must start with http:// or https://).'')]\<rparr>
   \<and> has_scheme calm (strip (ascii ''  HTTPS://Example.com/v ''))
   \<and> map_of (user_data (process_update calm (Text (ascii ''  HTTPS://Example.com/v '')) waiting))
        (ascii ''url'') = Some (ascii ''HTTPS://Example.com/v'')
   \<and> conv (process_update calm (Text (ascii ''  HTTPS://Example.com/v '')) waiting)
       = Some ASK_FORMAT"
proof -
  have st: "conv waiting = Some ASK_LINK"
    by (simp add: example_defs)
  have s1: "strip (ascii ''ftp://x.com/a'') = ascii ''ftp://x.com/a''"
    and s2: "strip (ascii ''  HTTPS://Example.com/v '') = ascii ''HTTPS://Example.com/v''"
    by (simp_all add: strip_def isspace_def ascii_def)
  have bad: "\<not> has_scheme calm (ascii ''ftp://x.com/a'')"
    and good: "has_scheme calm (ascii ''HTTPS://Example.com/v'')"
    by (simp_all add: has_scheme_def lower_def startswith_def ascii_lower_def ascii_def)
  have quiet: "raises calm (trace waiting) (ReplyMarkup format_question keyboard) = None"
    by (simp add: example_defs)
  have tr: "trace waiting = []"
    by (simp add: example_defs)
  from ask_format_transition[OF st, of calm "ascii ''ftp://x.com/a''"]
    ask_format_transition[OF st, of calm "ascii ''  HTTPS://Example.com/v ''"]
    st bad good quiet tr
  show ?thesis by (simp add: s1 s2 update_conv')
qed

section \<open>A format choice without a stored link (C4)\<close>

text \<open>
  C4. In the state \<open>ASK_FORMAT\<close>, when a button press arrives and nothing is stored
  under \<open>url\<close>: the handler answers the press and edits the message to the cross mark
  and \<open>Something went wrong (missing URL). Please /start again.\<close>; it makes no other
  call (none on the download library, no \<open>mkdtemp\<close>), the disk and the dictionary
  stay as they are, and when the two calls return the conversation has ended.
\<close>

theorem missing_url_ends:
  assumes "conv w = Some ASK_FORMAT"
    and "map_of (user_data w) (ascii ''url'') = None"
  shows "trace (process_update E (CallbackQuery choice) w)
           = trace w
             @ (if raises E (trace w) Answer = None
                then [Answer,
                      EditMessageText ([0x274C]
                        @ ascii '' Something went wrong (missing URL). Please /start again.'')]
                else [Answer])
       \<and> fs (process_update E (CallbackQuery choice) w) = fs w
       \<and> user_data (process_update E (CallbackQuery choice) w) = user_data w
       \<and> conv (process_update E (CallbackQuery choice) w)
           = (if raises E (trace w) Answer = None
                 \<and> raises E (trace w @ [Answer]) (EditMessageText missing_url_text) = None
              then None else Some ASK_FORMAT)"
proof -
  have sel: "check_update (conv w) (CallbackQuery choice) = Some (HandleFormatChoice choice)"
    using assms(1) by (simp add: check_update_def)
  show ?thesis
    using sel assms(1)
    by (auto simp add: process_update_def handle_format_choice_missing[OF assms(2)]
          missing_url_text_def split: option.splits)
qed

theorem missing_url_ends_witness:
  "conv forgotten = Some ASK_FORMAT
   \<and> map_of (user_data forgotten) (ascii ''url'') = None
   \<and> trace (process_update calm (CallbackQuery (ascii ''audio'')) forgotten)
       = [Answer,
          EditMessageText ([0x274C]
            @ ascii '' Something went wrong (missing URL). Please /start again.'')]
   \<and> fs (process_update calm (CallbackQuery (ascii ''audio'')) forgotten) = []
   \<and> conv (process_update calm (CallbackQuery (ascii ''audio'')) forgotten) = None"
proof -
  have st: "conv forgotten = Some ASK_FORMAT"
    and none: "map_of (user_data forgotten) (ascii ''url'') = None"
    and quiet: "raises calm (trace forgotten) Answer = None"
      "raises calm (trace forgotten @ [Answer]) (EditMessageText missing_url_text) = None"
    and start: "trace forgotten = []" "fs forgotten = []"
    by (simp_all add: example_defs)
  from missing_url_ends[OF st none, of calm "ascii ''audio''"] st none quiet start
  show ?thesis by simp
qed

section \<open>Starting again (C7)\<close>

text \<open>
  C7, as the specification states it, fails: \<open>start\<close> does not touch the dictionary, so
  a stored link is still there afterwards. Here a user who was asked for the format
  sends \<open>/start\<close>, and the link is still stored.
\<close>

theorem start_keeps_url:
  "conv asked = Some ASK_FORMAT
   \<and> map_of (user_data asked) (ascii ''url'') = Some example_url
   \<and> conv (process_update calm (Command (ascii ''start'')) asked) = Some ASK_LINK
   \<and> map_of (user_data (process_update calm (Command (ascii ''start'')) asked)) (ascii ''url'')
       = Some example_url"
  by (simp add: process_update_def check_update_def start_run example_defs)

text \<open>
  C7, amended. From every state, also without a conversation, \<open>/start\<close> makes one call,
  the reply with the greeting, and leaves the dictionary (with any stored link) and the
  disk as they are; when the reply returns the state is \<open>ASK_LINK\<close>, and a second
  \<open>/start\<close> leaves the state, the dictionary and the disk as the first left them.
\<close>

theorem start_resets_state:
  "trace (process_update E (Command (ascii ''start'')) w)
     = trace w
       @ [ReplyText ([0x1F44B] @ ascii '' Hi! Send me the link of the video you want to download.'')]
   \<and> user_data (process_update E (Command (ascii ''start'')) w) = user_data w
   \<and> fs (process_update E (Command (ascii ''start'')) w) = fs w
   \<and> conv (process_update E (Command (ascii ''start'')) w)
       = (if raises E (trace w) (ReplyText greeting) = None then Some ASK_LINK else conv w)
   \<and> (raises E (trace w) (ReplyText greeting) = None \<longrightarrow>
        conv (process_update E (Command (ascii ''start''))
                (process_update E (Command (ascii ''start'')) w)) = Some ASK_LINK
        \<and> user_data (process_update E (Command (ascii ''start''))
                (process_update E (Command (ascii ''start'')) w)) = user_data w
        \<and> fs (process_update E (Command (ascii ''start''))
                (process_update E (Command (ascii ''start'')) w)) = fs w)"
proof -
  have once: "process_update E (Command (ascii ''start'')) v
                = (case raises E (trace v) (ReplyText greeting) of
                     None \<Rightarrow> v\<lparr>trace := trace v @ [ReplyText greeting], conv := Some ASK_LINK\<rparr>
                   | Some x \<Rightarrow> v\<lparr>trace := trace v @ [ReplyText greeting]\<rparr>)" for v
    by (simp add: process_update_def check_update_def start_run split: option.splits)
  show ?thesis
    by (simp add: once greeting_def split: option.splits)
qed

theorem start_resets_state_witness:
  "raises calm (trace asked) (ReplyText greeting) = None
   \<and> conv (process_update calm (Command (ascii ''start'')) asked) = Some ASK_LINK
   \<and> conv (process_update calm (Command (ascii ''start''))
             (process_update calm (Command (ascii ''start'')) asked)) = Some ASK_LINK
   \<and> user_data (process_update calm (Command (ascii ''start''))
             (process_update calm (Command (ascii ''start'')) asked))
       = [(ascii ''url'', example_url)]"
proof -
  have quiet: "raises calm (trace asked) (ReplyText greeting) = None"
    and ud: "user_data asked = [(ascii ''url'', example_url)]"
    by (simp_all add: example_defs)
  from start_resets_state[of calm asked] quiet ud show ?thesis by simp
qed

section \<open>The stored link after a delivery (C8)\<close>

text \<open>
  C8, as the specification states it, fails: the handler of the format choice never
  writes the dictionary, so the link is still stored when the conversation is back in
  \<open>ASK_LINK\<close>. Here the delivery succeeds and the link is still stored.
\<close>

theorem url_kept_after_delivery:
  "conv (process_update calm (CallbackQuery (ascii ''video'')) asked) = Some ASK_LINK
   \<and> map_of (user_data (process_update calm (CallbackQuery (ascii ''video'')) asked))
        (ascii ''url'') = Some example_url"
  by (simp add: process_update_def check_update_def handler_defs io_defs example_defs Let_def)

text \<open>
  C8, amended. A button press never changes the dictionary, whatever the state and
  however the delivery ends, so the stored link stays. Still, the conversation enters
  \<open>ASK_FORMAT\<close> from another state only from \<open>ASK_LINK\<close> and only on a text message
  whose stripped text has an accepted scheme, and then that stripped text is what is
  stored.
\<close>

theorem format_state_needs_new_url:
  "user_data (process_update E (CallbackQuery choice) w) = user_data w
   \<and> (conv w \<noteq> Some ASK_FORMAT \<and> conv (process_update E u w) = Some ASK_FORMAT \<longrightarrow>
        conv w = Some ASK_LINK
        \<and> (\<exists>t. u = Text t \<and> has_scheme E (strip t)
               \<and> map_of (user_data (process_update E u w)) (ascii ''url'') = Some (strip t)))"
proof -
  have keep: "user_data (process_update E (CallbackQuery choice) w) = user_data w"
  proof (cases "conv w = Some ASK_FORMAT")
    case True
    obtain r w' where run: "handle_format_choice E choice w = (r, w')"
      by (cases "handle_format_choice E choice w")
    with handle_format_choice_keeps(1)[of E choice w] have "user_data w' = user_data w"
      by simp
    with True run show ?thesis
      by (simp add: process_update_def check_update_def
            split: sum.splits handler_result.splits)
  next
    case False
    then show ?thesis
      by (cases "conv w")
        (auto simp add: process_update_def check_update_def fallbacks_def
           split: conv_state.splits)
  qed
  have enter: "conv w = Some ASK_LINK
        \<and> (\<exists>t. u = Text t \<and> has_scheme E (strip t)
               \<and> map_of (user_data (process_update E u w)) (ascii ''url'') = Some (strip t))"
    if other: "conv w \<noteq> Some ASK_FORMAT" and now: "conv (process_update E u w) = Some ASK_FORMAT"
  proof (cases "conv w")
    case None
    with now show ?thesis
      by (auto simp add: process_update_def check_update_def start_run call_def
            split: if_splits option.splits)
  next
    case (Some st)
    with other have link: "conv w = Some ASK_LINK"
      by (cases st) simp_all
    show ?thesis
    proof (cases u)
      case (Text t)
      with link now show ?thesis
        by (auto simp add: process_update_def check_update_def ask_format_run update_conv'
              split: if_splits option.splits)
    next
      case (Command c)
      with link now show ?thesis
        by (auto simp add: process_update_def check_update_def fallbacks_def start_run cancel_run
              split: if_splits option.splits)
    next
      case (CallbackQuery q)
      with link now show ?thesis
        by (auto simp add: process_update_def check_update_def fallbacks_def
              split: if_splits option.splits)
    next
      case OtherMessage
      with link now show ?thesis
        by (auto simp add: process_update_def check_update_def fallbacks_def start_run
              split: if_splits option.splits)
    qed
  qed
  from keep enter show ?thesis by blast
qed

theorem format_state_needs_new_url_witness:
  "conv waiting \<noteq> Some ASK_FORMAT
   \<and> conv (process_update calm (Text (ascii ''https://example.com/w'')) waiting) = Some ASK_FORMAT
   \<and> conv waiting = Some ASK_LINK
   \<and> has_scheme calm (strip (ascii ''https://example.com/w''))
   \<and> map_of (user_data (process_update calm (Text (ascii ''https://example.com/w'')) waiting))
        (ascii ''url'') = Some (strip (ascii ''https://example.com/w''))"
proof -
  have s: "strip (ascii ''https://example.com/w'') = ascii ''https://example.com/w''"
    by (simp add: strip_def isspace_def ascii_def)
  have good: "has_scheme calm (ascii ''https://example.com/w'')"
    by (simp add: has_scheme_def lower_def startswith_def ascii_lower_def ascii_def)
  have other: "conv waiting \<noteq> Some ASK_FORMAT"
    by (simp add: example_defs)
  have now: "conv (process_update calm (Text (ascii ''https://example.com/w'')) waiting)
               = Some ASK_FORMAT"
    using good
    by (simp add: process_update_def check_update_def ask_format_run s example_defs)
  from format_state_needs_new_url[of calm "ascii ''video''" waiting
      "Text (ascii ''https://example.com/w'')"] other now
  show ?thesis by auto
qed

section \<open>What \<open>download_media\<close> returns (C9)\<close>

text \<open>
  C9. The path that \<open>download_media\<close> returns should be the file the download
  produced; its docstring says \<open>Returns the path to the downloaded file\<close>, and for
  audio the code rewrites the extension to follow the file. The code does not keep
  this: it returns the name the library computes and never looks at the disk. Here the
  library merges the streams into \<open>clip.mkv\<close> and names \<open>clip.webm\<close>: the call
  returns \<open>clip.webm\<close>, the only file on disk is \<open>clip.mkv\<close>, and the returned
  path is not on disk.
\<close>

theorem returned_path_not_on_disk:
  "fst (download_media merging example_url (ascii ''/tmp/tmpk3v9'') (ascii ''video'') asked)
     = Inr (ascii ''/tmp/tmpk3v9/clip.webm'')
   \<and> fs (snd (download_media merging example_url (ascii ''/tmp/tmpk3v9'') (ascii ''video'') asked))
       = [ascii ''/tmp/tmpk3v9/clip.mkv'']
   \<and> ascii ''/tmp/tmpk3v9/clip.webm''
       \<notin> set (fs (snd (download_media merging example_url (ascii ''/tmp/tmpk3v9'')
                         (ascii ''video'') asked)))"
  by (simp add: handler_defs io_defs example_defs Let_def)

end
